theory Spec2Isabelle
  imports Main "HOL-Library.Word"
begin

unbundle bit_operations_syntax

section \<open>Data model of lightningd/invoice.c\<close>

text \<open>
  An invoice is a C struct that lives in memory and is reached through pointers: the
  invoice list holds pointers, \<open>find_unpaid\<close> returns one and \<open>resolve_invoice\<close> writes
  through one. The model keeps that: \<open>addr\<close> is a pointer, \<open>heap\<close> maps every address to
  the struct stored there (memory that was never written holds whatever it holds), and
  \<open>brk\<close> is the next address \<open>tal\<close> hands out.
\<close>

datatype invoice_status = UNPAID | PAID

type_synonym addr = nat
type_synonym command = nat
type_synonym sha256 = "256 word"

text \<open>
  \<open>struct invoice\<close>: \<open>inv_id\<close> is the field \<open>id\<close>, \<open>r_r\<close> is the preimage \<open>r.r\<close>
  (an array of 32 bytes), \<open>rhash\<close> the payment hash (a 32-byte struct, compared with
  \<open>structeq\<close>), \<open>label\<close> a C string (the characters before the terminator).
\<close>

record invoice =
  inv_id :: "64 word"
  state :: invoice_status
  label :: string
  msatoshi :: "64 word"
  r_r :: "8 word list"
  rhash :: sha256

text \<open>
  \<open>struct invoices\<close>: the invoice list (pointers, head first) and the queue of waiters.
  A \<open>struct invoice_waiter\<close> carries nothing but its command, so the queue is the list
  of the commands, head first.
\<close>

record invoices =
  invlist :: "addr list"
  invoice_waiters :: "command list"

text \<open>
  What \<open>new_json_result\<close>, \<open>json_object_start\<close>, \<open>json_add_string\<close>, \<open>json_add_hex\<close>,
  \<open>json_add_u64\<close>, \<open>json_add_bool\<close> and \<open>json_array_start\<close> build.
\<close>

datatype json =
  JString string
| JHex sha256
| JU64 "64 word"
| JBool bool
| JObject "(string \<times> json) list"
| JArray "json list"

text \<open>
  One constructor for each \<open>command_fail\<close> message of the file, with the values the
  format string prints:
  \<^item> \<open>Need_amount_and_label\<close>: "Need {amount} and {label}"
  \<^item> \<open>Invalid_hex_r\<close>: "Invalid hex r '%.*s'"
  \<^item> \<open>Duplicate_r_value\<close>: "Duplicate r value '%s'"
  \<^item> \<open>Not_a_valid_positive_number\<close>: "'%.*s' is not a valid positive number"
  \<^item> \<open>Duplicate_label\<close>: "Duplicate label '%s'"
  \<^item> \<open>Label_over_bytes\<close>: "label '%s' over %u bytes"
  \<^item> \<open>Database_error_invoice\<close>: "database error" (json_invoice)
  \<^item> \<open>Database_error_delinvoice\<close>: "Database error" (json_delinvoice)
  \<^item> \<open>Invalid_arguments\<close>: "Invalid arguments"
  \<^item> \<open>Unknown_invoice\<close>: "Unknown invoice"
  \<^item> \<open>Label_not_found\<close>: "Label not found"
  \<^item> \<open>Missing_label\<close>: "Missing {label}"
\<close>

datatype failure =
  Need_amount_and_label
| Invalid_hex_r string
| Duplicate_r_value sha256
| Not_a_valid_positive_number string
| Duplicate_label string
| Label_over_bytes string nat
| Database_error_invoice
| Database_error_delinvoice
| Invalid_arguments
| Unknown_invoice
| Label_not_found
| Missing_label

datatype reply = Success json | Failed failure

text \<open>
  The daemon. \<open>invoices\<close> and \<open>wallet\<close> are the fields of \<open>struct lightningd\<close> the file
  uses; the wallet is the persistence gateway's own state, of a type \<open>'w\<close> the file
  knows nothing about. \<open>replies\<close> is the log of what \<open>command_success\<close> and
  \<open>command_fail\<close> sent, oldest first; \<open>entropy\<close> is the stream \<open>randombytes_buf\<close> reads.
\<close>

record 'w lightningd =
  heap :: "addr \<Rightarrow> invoice"
  brk :: addr
  invoices :: invoices
  wallet :: "'w"
  replies :: "(command \<times> reply) list"
  entropy :: "nat \<Rightarrow> 8 word"

text \<open>
  The functions and the constant the file uses and does not define, taken as
  parameters: \<open>sha256\<close> (ccan/crypto), \<open>json_tok_u64\<close> (the text of a token to a
  \<open>u64\<close>, or failure), \<open>INVOICE_MAX_LABEL_LEN\<close> (invoice.h), and the persistence gateway
  \<open>wallet_invoice_save\<close> and \<open>wallet_invoice_remove\<close> (wallet). Both gateway calls
  return whether they succeeded and the wallet afterwards; a save also returns the
  \<open>id\<close> the invoice has afterwards, which is assigned at persistence time.
\<close>

record 'w env =
  sha256 :: "8 word list \<Rightarrow> sha256"
  json_tok_u64 :: "string \<Rightarrow> 64 word option"
  INVOICE_MAX_LABEL_LEN :: nat
  wallet_invoice_save :: "'w \<Rightarrow> invoice \<Rightarrow> bool \<times> 'w \<times> 64 word"
  wallet_invoice_remove :: "'w \<Rightarrow> invoice \<Rightarrow> bool \<times> 'w"

section \<open>Helpers of other files\<close>

text \<open>
  Modelled from the spec: \<open>hex_decode\<close> (ccan/str/hex, not under src/). The preimage
  \<open>r\<close> is hex text that must decode to exactly \<open>bufsize\<close> bytes: two hex digits of
  either case for each byte, nothing else, nothing left over.
\<close>

definition char_to_hex :: "char \<Rightarrow> 8 word option" where
  "char_to_hex c =
     (let n = (of_char c :: nat) in
      if 48 \<le> n \<and> n \<le> 57 then Some (of_nat (n - 48))
      else if 97 \<le> n \<and> n \<le> 102 then Some (of_nat (n - 87))
      else if 65 \<le> n \<and> n \<le> 70 then Some (of_nat (n - 55))
      else None)"

fun hex_bytes :: "string \<Rightarrow> 8 word list option" where
  "hex_bytes [] = Some []"
| "hex_bytes [c] = None"
| "hex_bytes (c1 # c2 # rest) =
     (case char_to_hex c1 of
        None \<Rightarrow> None
      | Some v1 \<Rightarrow>
          (case char_to_hex c2 of
             None \<Rightarrow> None
           | Some v2 \<Rightarrow>
               (case hex_bytes rest of
                  None \<Rightarrow> None
                | Some bs \<Rightarrow> Some ((push_bit 4 v1 OR v2) # bs))))"

definition hex_decode :: "string \<Rightarrow> nat \<Rightarrow> 8 word list option" where
  "hex_decode str bufsize =
     (case hex_bytes str of
        None \<Rightarrow> None
      | Some bs \<Rightarrow> if length bs = bufsize then Some bs else None)"

text \<open>
  Modelled from the spec: \<open>json_get_params\<close> (jsonrpc.c, not under src/). The RPC
  layer hands a request over as named parameters, each with the text of its token;
  the call fails when a compulsory parameter is missing, and an optional one that is
  absent is \<open>None\<close> (the C \<open>NULL\<close>).
\<close>

type_synonym params = "string \<Rightarrow> string option"

definition json_get_params :: "params \<Rightarrow> string list \<Rightarrow> bool" where
  "json_get_params ps compulsory = list_all (\<lambda>n. ps n \<noteq> None) compulsory"

text \<open>
  Modelled from the spec: \<open>tal_strndup\<close> (ccan/tal/str, not under src/) copies a label
  out of the request; as C's \<open>strndup\<close>, it takes at most \<open>n\<close> characters and none from
  the first NUL on.
\<close>

definition tal_strndup :: "string \<Rightarrow> nat \<Rightarrow> string" where
  "tal_strndup s n = takeWhile (\<lambda>c. c \<noteq> CHR 0x00) (take n s)"

text \<open>
  \<open>randombytes_buf\<close> (libsodium) generates the preimage when the caller gives none: it
  is the next \<open>n\<close> bytes of the entropy stream.
\<close>

definition randombytes_buf :: "(nat \<Rightarrow> 8 word) \<Rightarrow> nat \<Rightarrow> 8 word list \<times> (nat \<Rightarrow> 8 word)" where
  "randombytes_buf rnd n = (map rnd [0..<n], \<lambda>i. rnd (i + n))"

section \<open>ccan/list and the reply channel\<close>

text \<open>
  Modelled from the spec: the list operations of ccan/list (not under src/). A
  collection takes a new record at its head with \<open>list_add\<close>; the waiter queue is
  first in, first out: \<open>list_add_tail\<close> appends, \<open>list_pop\<close> takes the head off or finds
  the list empty (the C \<open>NULL\<close>); \<open>list_del_from\<close> unlinks a node.
\<close>

definition list_add :: "'a list \<Rightarrow> 'a \<Rightarrow> 'a list" where
  "list_add h n = n # h"

definition list_add_tail :: "'a list \<Rightarrow> 'a \<Rightarrow> 'a list" where
  "list_add_tail h n = h @ [n]"

definition list_pop :: "'a list \<Rightarrow> ('a \<times> 'a list) option" where
  "list_pop h = (case h of [] \<Rightarrow> None | n # rest \<Rightarrow> Some (n, rest))"

definition list_del_from :: "'a list \<Rightarrow> 'a \<Rightarrow> 'a list" where
  "list_del_from h n = remove1 n h"

text \<open>
  Modelled from the spec: \<open>command_success\<close> and \<open>command_fail\<close> (jsonrpc.c, not under
  src/) deliver a result or a failure to the caller of a command. The model logs what
  was delivered and to whom, in the order of delivery.
\<close>

definition command_success :: "command \<Rightarrow> json \<Rightarrow> 'w lightningd \<Rightarrow> 'w lightningd" where
  "command_success cmd response ld = ld\<lparr>replies := replies ld @ [(cmd, Success response)]\<rparr>"

definition command_fail :: "command \<Rightarrow> failure \<Rightarrow> 'w lightningd \<Rightarrow> 'w lightningd" where
  "command_fail cmd msg ld = ld\<lparr>replies := replies ld @ [(cmd, Failed msg)]\<rparr>"

section \<open>Lookups\<close>

fun find_inv :: "(addr \<Rightarrow> invoice) \<Rightarrow> addr list \<Rightarrow> sha256 \<Rightarrow> invoice_status \<Rightarrow> addr option" where
  "find_inv hp [] h st = None"
| "find_inv hp (i # rest) h st =
     (if h = rhash (hp i) \<and> state (hp i) = st then Some i else find_inv hp rest h st)"

definition find_unpaid :: "(addr \<Rightarrow> invoice) \<Rightarrow> invoices \<Rightarrow> sha256 \<Rightarrow> addr option" where
  "find_unpaid hp invs h = find_inv hp (invlist invs) h UNPAID"

definition find_paid :: "(addr \<Rightarrow> invoice) \<Rightarrow> invoices \<Rightarrow> sha256 \<Rightarrow> addr option" where
  "find_paid hp invs h = find_inv hp (invlist invs) h PAID"

fun find_invoice_by_label :: "(addr \<Rightarrow> invoice) \<Rightarrow> addr list \<Rightarrow> string \<Rightarrow> addr option" where
  "find_invoice_by_label hp [] l = None"
| "find_invoice_by_label hp (i # rest) l =
     (if label (hp i) = l then Some i else find_invoice_by_label hp rest l)"

section \<open>The store\<close>

text \<open>
  \<open>invoice_add\<close>, with \<open>invp\<close> for its parameter \<open>inv\<close>: \<open>tal_steal\<close> only changes
  who owns it. The local \<open>invoice\<close> is a fresh allocation, never initialised; its
  \<open>rhash\<close> is set to the hash of its own \<open>r\<close>, and \<open>inv\<close> is what goes on the list, as
  it came.
\<close>

definition invoice_add :: "'w env \<Rightarrow> 'w lightningd \<Rightarrow> addr \<Rightarrow> 'w lightningd" where
  "invoice_add e ld invp =
     (let invoice = brk ld in
      ld\<lparr>brk := Suc invoice,
         heap := (heap ld)(invoice := (heap ld invoice)\<lparr>rhash := sha256 e (r_r (heap ld invoice))\<rparr>),
         invoices := (invoices ld)\<lparr>invlist := list_add (invlist (invoices ld)) invp\<rparr>\<rparr>)"

definition invoices_init :: invoices where
  "invoices_init = \<lparr>invlist = [], invoice_waiters = []\<rparr>"

section \<open>Resolution\<close>

text \<open>\<open>tell_waiter\<close>: the response it builds, and its delivery.\<close>

definition waiter_response :: "invoice \<Rightarrow> json" where
  "waiter_response paid =
     JObject [(''label'', JString (label paid)),
              (''rhash'', JHex (rhash paid)),
              (''msatoshi'', JU64 (msatoshi paid)),
              (''complete'', JBool (state paid = PAID))]"

definition tell_waiter :: "command \<Rightarrow> invoice \<Rightarrow> 'w lightningd \<Rightarrow> 'w lightningd" where
  "tell_waiter cmd paid ld = command_success cmd (waiter_response paid) ld"

text \<open>
  The loop of \<open>resolve_invoice\<close>: pop the head of the queue, tell it, and look at the
  queue again, until \<open>list_pop\<close> finds it empty. \<open>command_success\<close> hands the reply to
  the RPC layer while the loop still has work to do; \<open>notified cmd\<close> is what the rest of
  the daemon does to the state between that reply and the loop's next look at the queue
  (the notified caller's own logic). The loop reads the queue and the invoice afresh on
  every round, so it can run forever: not returning is the value \<open>None\<close>.
\<close>

partial_function (option) tell_all_waiters ::
  "(command \<Rightarrow> 'w lightningd \<Rightarrow> 'w lightningd) \<Rightarrow> addr \<Rightarrow> 'w lightningd \<Rightarrow> 'w lightningd option" where
  "tell_all_waiters notified invoice ld =
     (case list_pop (invoice_waiters (invoices ld)) of
        None \<Rightarrow> Some ld
      | Some (w, rest) \<Rightarrow>
          tell_all_waiters notified invoice
            (notified w
              (tell_waiter w (heap ld invoice)
                (ld\<lparr>invoices := (invoices ld)\<lparr>invoice_waiters := rest\<rparr>\<rparr>))))"

definition resolve_invoice ::
  "'w env \<Rightarrow> (command \<Rightarrow> 'w lightningd \<Rightarrow> 'w lightningd) \<Rightarrow> 'w lightningd \<Rightarrow> addr
   \<Rightarrow> 'w lightningd option" where
  "resolve_invoice e notified ld invoice =
     (let ld1 = ld\<lparr>heap := (heap ld)(invoice := (heap ld invoice)\<lparr>state := PAID\<rparr>)\<rparr> in
      case tell_all_waiters notified invoice ld1 of
        None \<Rightarrow> None
      | Some ld2 \<Rightarrow>
          (case wallet_invoice_save e (wallet ld2) (heap ld2 invoice) of
             (ok, w', id') \<Rightarrow>
               Some (ld2\<lparr>wallet := w',
                         heap := (heap ld2)(invoice := (heap ld2 invoice)\<lparr>inv_id := id'\<rparr>)\<rparr>)))"

text \<open>
  The daemon as the repository has it: delivering a reply does not call back into the
  invoice handlers, so nothing happens to the state between two rounds of the loop.
\<close>

definition no_reentry :: "command \<Rightarrow> 'w lightningd \<Rightarrow> 'w lightningd" where
  "no_reentry cmd ld = ld"

section \<open>json_invoice\<close>

text \<open>
  The invoice under construction belongs to the command and is freed with it when the
  command fails, so it is a local value until the handler connects it to the main
  state; only then does it get its address. \<open>json_invoice_hashed\<close> is the handler from
  the \<open>sha256\<close> call on, which both ways of getting \<open>r\<close> lead to.
\<close>

definition json_invoice_hashed ::
  "'w env \<Rightarrow> command \<Rightarrow> string \<Rightarrow> string \<Rightarrow> 8 word list \<Rightarrow> 'w lightningd \<Rightarrow> 'w lightningd" where
  "json_invoice_hashed e cmd msatoshi_tok label_tok rr ld =
     (let h = sha256 e rr in
      if find_unpaid (heap ld) (invoices ld) h \<noteq> None \<or> find_paid (heap ld) (invoices ld) h \<noteq> None
      then command_fail cmd (Duplicate_r_value h) ld
      else
        (case json_tok_u64 e msatoshi_tok of
           None \<Rightarrow> command_fail cmd (Not_a_valid_positive_number msatoshi_tok) ld
         | Some m \<Rightarrow>
             if m = 0 then command_fail cmd (Not_a_valid_positive_number msatoshi_tok) ld
             else
               (let lbl = tal_strndup label_tok (length label_tok) in
                if find_invoice_by_label (heap ld) (invlist (invoices ld)) lbl \<noteq> None
                then command_fail cmd (Duplicate_label lbl) ld
                else if length lbl > INVOICE_MAX_LABEL_LEN e
                then command_fail cmd (Label_over_bytes lbl (INVOICE_MAX_LABEL_LEN e)) ld
                else
                  (let invoice = \<lparr>inv_id = 0, state = UNPAID, label = lbl, msatoshi = m,
                                  r_r = rr, rhash = h\<rparr> in
                   case wallet_invoice_save e (wallet ld) invoice of
                     (ok, w', id') \<Rightarrow>
                       if \<not> ok then command_fail cmd Database_error_invoice (ld\<lparr>wallet := w'\<rparr>)
                       else
                         command_success cmd (JObject [(''rhash'', JHex h)])
                           (ld\<lparr>wallet := w',
                               brk := Suc (brk ld),
                               heap := (heap ld)(brk ld := invoice\<lparr>inv_id := id'\<rparr>),
                               invoices := (invoices ld)
                                 \<lparr>invlist := list_add (invlist (invoices ld)) (brk ld)\<rparr>\<rparr>)))))"

definition json_invoice :: "'w env \<Rightarrow> command \<Rightarrow> params \<Rightarrow> 'w lightningd \<Rightarrow> 'w lightningd" where
  "json_invoice e cmd ps ld =
     (if \<not> json_get_params ps [''amount'', ''label'']
      then command_fail cmd Need_amount_and_label ld
      else
        (let msatoshi_tok = the (ps ''amount''); label_tok = the (ps ''label'') in
         case ps ''r'' of
           Some r_tok \<Rightarrow>
             (case hex_decode r_tok 32 of
                None \<Rightarrow> command_fail cmd (Invalid_hex_r r_tok) ld
              | Some rr \<Rightarrow> json_invoice_hashed e cmd msatoshi_tok label_tok rr ld)
         | None \<Rightarrow>
             (case randombytes_buf (entropy ld) 32 of
                (rr, rnd') \<Rightarrow>
                  json_invoice_hashed e cmd msatoshi_tok label_tok rr (ld\<lparr>entropy := rnd'\<rparr>))))"

section \<open>json_listinvoice, json_delinvoice\<close>

fun json_add_invoices :: "(addr \<Rightarrow> invoice) \<Rightarrow> addr list \<Rightarrow> string option \<Rightarrow> json list" where
  "json_add_invoices hp [] lbl = []"
| "json_add_invoices hp (i # rest) lbl =
     (if (case lbl of None \<Rightarrow> False | Some l \<Rightarrow> label (hp i) \<noteq> l)
      then json_add_invoices hp rest lbl
      else JObject [(''label'', JString (label (hp i))),
                    (''rhash'', JHex (rhash (hp i))),
                    (''msatoshi'', JU64 (msatoshi (hp i))),
                    (''complete'', JBool (state (hp i) = PAID))]
           # json_add_invoices hp rest lbl)"

definition json_listinvoice :: "command \<Rightarrow> params \<Rightarrow> 'w lightningd \<Rightarrow> 'w lightningd" where
  "json_listinvoice cmd ps ld =
     (if \<not> json_get_params ps [] then command_fail cmd Invalid_arguments ld
      else
        command_success cmd
          (JArray (json_add_invoices (heap ld) (invlist (invoices ld))
                     (map_option (\<lambda>tok. tal_strndup tok (length tok)) (ps ''label''))))
          ld)"

text \<open>
  \<open>json_delinvoice\<close>: \<open>tal_free\<close> gives the memory back and leaves the state the model
  tracks as it is.
\<close>

definition json_delinvoice :: "'w env \<Rightarrow> command \<Rightarrow> params \<Rightarrow> 'w lightningd \<Rightarrow> 'w lightningd" where
  "json_delinvoice e cmd ps ld =
     (if \<not> json_get_params ps [''label''] then command_fail cmd Invalid_arguments ld
      else
        (let labeltok = the (ps ''label'');
             lbl = tal_strndup labeltok (length labeltok) in
         case find_invoice_by_label (heap ld) (invlist (invoices ld)) lbl of
           None \<Rightarrow> command_fail cmd Unknown_invoice ld
         | Some i \<Rightarrow>
             (case wallet_invoice_remove e (wallet ld) (heap ld i) of
                (ok, w') \<Rightarrow>
                  if \<not> ok then command_fail cmd Database_error_delinvoice (ld\<lparr>wallet := w'\<rparr>)
                  else
                    command_success cmd
                      (JObject [(''label'', JString (label (heap ld i))),
                                (''rhash'', JHex (rhash (heap ld i))),
                                (''msatoshi'', JU64 (msatoshi (heap ld i)))])
                      (ld\<lparr>wallet := w',
                          invoices := (invoices ld)
                            \<lparr>invlist := list_del_from (invlist (invoices ld)) i\<rparr>\<rparr>))))"

section \<open>json_waitanyinvoice, json_waitinvoice\<close>

text \<open>
  \<open>advance_to_paid hp nodes\<close> is the loop \<open>while (i && i->state == UNPAID) i = list_next(...)\<close>
  started at the first of \<open>nodes\<close>, the list from \<open>i\<close> on; \<open>list_from h i\<close> is that list
  for a node \<open>i\<close> of \<open>h\<close>.
\<close>

fun advance_to_paid :: "(addr \<Rightarrow> invoice) \<Rightarrow> addr list \<Rightarrow> addr option" where
  "advance_to_paid hp [] = None"
| "advance_to_paid hp (i # rest) =
     (if state (hp i) = UNPAID then advance_to_paid hp rest else Some i)"

definition list_from :: "addr list \<Rightarrow> addr \<Rightarrow> addr list" where
  "list_from h i = dropWhile (\<lambda>j. j \<noteq> i) h"

definition json_waitanyinvoice :: "command \<Rightarrow> params \<Rightarrow> 'w lightningd \<Rightarrow> 'w lightningd" where
  "json_waitanyinvoice cmd ps ld =
     (if \<not> json_get_params ps [] then command_fail cmd Invalid_arguments ld
      else
        (case (case ps ''label'' of
                 None \<Rightarrow> Inr (advance_to_paid (heap ld) (invlist (invoices ld)))
               | Some labeltok \<Rightarrow>
                   (case find_invoice_by_label (heap ld) (invlist (invoices ld))
                           (tal_strndup labeltok (length labeltok)) of
                      None \<Rightarrow> Inl Label_not_found
                    | Some i \<Rightarrow>
                        Inr (advance_to_paid (heap ld) (list_from (invlist (invoices ld)) i))))
         of
           Inl msg \<Rightarrow> command_fail cmd msg ld
         | Inr (Some i) \<Rightarrow> tell_waiter cmd (heap ld i) ld
         | Inr None \<Rightarrow>
             ld\<lparr>invoices := (invoices ld)
                  \<lparr>invoice_waiters := list_add_tail (invoice_waiters (invoices ld)) cmd\<rparr>\<rparr>))"

definition json_waitinvoice :: "command \<Rightarrow> params \<Rightarrow> 'w lightningd \<Rightarrow> 'w lightningd" where
  "json_waitinvoice cmd ps ld =
     (if \<not> json_get_params ps [''label''] then command_fail cmd Missing_label ld
      else
        (let labeltok = the (ps ''label'');
             lbl = tal_strndup labeltok (length labeltok) in
         case find_invoice_by_label (heap ld) (invlist (invoices ld)) lbl of
           None \<Rightarrow> command_fail cmd Label_not_found ld
         | Some i \<Rightarrow>
             if state (heap ld i) = PAID then tell_waiter cmd (heap ld i) ld
             else
               ld\<lparr>invoices := (invoices ld)
                    \<lparr>invoice_waiters := list_add_tail (invoice_waiters (invoices ld)) cmd\<rparr>\<rparr>))"

section \<open>The spec's vocabulary\<close>

text \<open>
  The error taxonomy of the spec, and the class of each message of the file: missing or
  malformed fields, a non-positive amount, a label that is too long and bad hex are
  validation errors; a duplicate hash or label is a conflict; an unknown label is not
  found; a failure of the storage backend is a persistence error.
\<close>

datatype error_class = ValidationError | ConflictError | NotFoundError | PersistenceError

fun class_of :: "failure \<Rightarrow> error_class" where
  "class_of Need_amount_and_label = ValidationError"
| "class_of (Invalid_hex_r t) = ValidationError"
| "class_of (Duplicate_r_value h) = ConflictError"
| "class_of (Not_a_valid_positive_number t) = ValidationError"
| "class_of (Duplicate_label l) = ConflictError"
| "class_of (Label_over_bytes l n) = ValidationError"
| "class_of Database_error_invoice = PersistenceError"
| "class_of Database_error_delinvoice = PersistenceError"
| "class_of Invalid_arguments = ValidationError"
| "class_of Unknown_invoice = NotFoundError"
| "class_of Label_not_found = NotFoundError"
| "class_of Missing_label = ValidationError"

text \<open>
  The projection of an invoice that a waiter is sent once the invoice is paid:
  label, payment hash, amount, and \<open>complete\<close> true.
\<close>

definition paid_projection :: "invoice \<Rightarrow> json" where
  "paid_projection i =
     JObject [(''label'', JString (label i)), (''rhash'', JHex (rhash i)),
              (''msatoshi'', JU64 (msatoshi i)), (''complete'', JBool True)]"

text \<open>The three invariants of the store, and that every listed invoice is allocated.\<close>

definition unique_hashes :: "'w lightningd \<Rightarrow> bool" where
  "unique_hashes ld = distinct (map (\<lambda>i. rhash (heap ld i)) (invlist (invoices ld)))"

definition unique_labels :: "'w lightningd \<Rightarrow> bool" where
  "unique_labels ld = distinct (map (\<lambda>i. label (heap ld i)) (invlist (invoices ld)))"

definition hashes_commit :: "'w env \<Rightarrow> 'w lightningd \<Rightarrow> bool" where
  "hashes_commit e ld =
     list_all (\<lambda>i. rhash (heap ld i) = sha256 e (r_r (heap ld i))) (invlist (invoices ld))"

definition allocated :: "'w lightningd \<Rightarrow> bool" where
  "allocated ld = list_all (\<lambda>i. i < brk ld) (invlist (invoices ld))"

text \<open>
  The payment hashes and the labels of the invoices in the store, and what it means
  that a handler left the in-memory store as it was.
\<close>

definition hashes_of :: "'w lightningd \<Rightarrow> sha256 set" where
  "hashes_of ld = (\<lambda>i. rhash (heap ld i)) ` set (invlist (invoices ld))"

definition labels_of :: "'w lightningd \<Rightarrow> string set" where
  "labels_of ld = (\<lambda>i. label (heap ld i)) ` set (invlist (invoices ld))"

definition store_unchanged :: "'w lightningd \<Rightarrow> 'w lightningd \<Rightarrow> bool" where
  "store_unchanged ld ld' = (invoices ld' = invoices ld \<and> heap ld' = heap ld \<and> brk ld' = brk ld)"

text \<open>
  The preimage of a create request: decoded from \<open>r\<close> when \<open>r\<close> is given (\<open>None\<close> when it
  does not decode to 32 bytes), the next 32 bytes of entropy otherwise; and the daemon
  once those bytes are drawn.
\<close>

definition preimage_for :: "params \<Rightarrow> 'w lightningd \<Rightarrow> 8 word list option" where
  "preimage_for ps ld =
     (case ps ''r'' of
        Some r_tok \<Rightarrow> hex_decode r_tok 32
      | None \<Rightarrow> Some (fst (randombytes_buf (entropy ld) 32)))"

definition entropy_used :: "params \<Rightarrow> 'w lightningd \<Rightarrow> 'w lightningd" where
  "entropy_used ps ld =
     (case ps ''r'' of
        Some r_tok \<Rightarrow> ld
      | None \<Rightarrow> ld\<lparr>entropy := snd (randombytes_buf (entropy ld) 32)\<rparr>)"

text \<open>
  A create request that breaks a validation rule the handler has: the amount is
  missing, is no number or is zero; the label is missing or longer than the limit;
  \<open>r\<close> is given and does not decode to 32 bytes.
\<close>

definition invalid_request :: "'w env \<Rightarrow> params \<Rightarrow> bool" where
  "invalid_request e ps =
     ((case ps ''amount'' of
         None \<Rightarrow> True
       | Some mt \<Rightarrow> json_tok_u64 e mt = None \<or> json_tok_u64 e mt = Some 0)
      \<or> (case ps ''label'' of
            None \<Rightarrow> True
          | Some lt \<Rightarrow> length (tal_strndup lt (length lt)) > INVOICE_MAX_LABEL_LEN e)
      \<or> (case ps ''r'' of
            None \<Rightarrow> False
          | Some r_tok \<Rightarrow> hex_decode r_tok 32 = None))"

text \<open>
  The records \<open>json_listinvoice\<close> lists, in the order it lists them: those of the list
  that carry the label asked for, all of them when no label is given.
\<close>

definition listed_records :: "'w lightningd \<Rightarrow> string option \<Rightarrow> addr list" where
  "listed_records ld lbl =
     filter (\<lambda>i. case lbl of None \<Rightarrow> True | Some l \<Rightarrow> label (heap ld i) = l)
       (invlist (invoices ld))"

text \<open>
  The invoices \<open>json_waitanyinvoice\<close> walks through: the list from its head when no
  label is given, from the first invoice with that label otherwise.
\<close>

definition traversal :: "'w lightningd \<Rightarrow> string option \<Rightarrow> addr list" where
  "traversal ld lbl =
     (case lbl of
        None \<Rightarrow> invlist (invoices ld)
      | Some l \<Rightarrow> dropWhile (\<lambda>i. label (heap ld i) \<noteq> l) (invlist (invoices ld)))"

text \<open>The label a request names, as the handlers copy it out of the token.\<close>

definition label_param :: "params \<Rightarrow> string option" where
  "label_param ps = map_option (\<lambda>tok. tal_strndup tok (length tok)) (ps ''label'')"

text \<open>
  The invariants together, and the states the daemon reaches from an empty store
  through the handlers and \<open>resolve_invoice\<close>.
\<close>

definition store_ok :: "'w env \<Rightarrow> 'w lightningd \<Rightarrow> bool" where
  "store_ok e ld = (unique_hashes ld \<and> unique_labels ld \<and> hashes_commit e ld \<and> allocated ld)"

inductive reachable :: "'w env \<Rightarrow> 'w lightningd \<Rightarrow> bool" for e :: "'w env" where
  start: "invoices ld = invoices_init \<Longrightarrow> reachable e ld"
| create: "reachable e ld \<Longrightarrow> reachable e (json_invoice e cmd ps ld)"
| listing: "reachable e ld \<Longrightarrow> reachable e (json_listinvoice cmd ps ld)"
| delete: "reachable e ld \<Longrightarrow> reachable e (json_delinvoice e cmd ps ld)"
| wait_any: "reachable e ld \<Longrightarrow> reachable e (json_waitanyinvoice cmd ps ld)"
| wait_one: "reachable e ld \<Longrightarrow> reachable e (json_waitinvoice cmd ps ld)"
| resolve: "reachable e ld \<Longrightarrow> resolve_invoice e no_reentry ld a = Some ld' \<Longrightarrow> reachable e ld'"

section \<open>A sample daemon\<close>

text \<open>
  Concrete parameters and states, for running the handlers: a stand-in for the hash
  (the sum of the bytes), a token reader that knows three amounts, a limit of 128, and
  a wallet that is the list of the rows saved; \<open>broken_env\<close> has a wallet whose every
  call fails.
\<close>

definition sample_sha256 :: "8 word list \<Rightarrow> sha256" where
  "sample_sha256 bs = of_nat (sum_list (map unat bs))"

definition sample_tok_u64 :: "string \<Rightarrow> 64 word option" where
  "sample_tok_u64 t =
     (if t = ''1000'' then Some 1000 else if t = ''500'' then Some 500
      else if t = ''0'' then Some 0 else None)"

definition sample_save :: "invoice list \<Rightarrow> invoice \<Rightarrow> bool \<times> invoice list \<times> 64 word" where
  "sample_save w i =
     (True, w @ [i], if inv_id i = 0 then of_nat (Suc (length w)) else inv_id i)"

definition sample_remove :: "invoice list \<Rightarrow> invoice \<Rightarrow> bool \<times> invoice list" where
  "sample_remove w i = (True, filter (\<lambda>row. label row \<noteq> label i) w)"

definition sample_env :: "invoice list env" where
  "sample_env =
     \<lparr>sha256 = sample_sha256, json_tok_u64 = sample_tok_u64, INVOICE_MAX_LABEL_LEN = 128,
      wallet_invoice_save = sample_save, wallet_invoice_remove = sample_remove\<rparr>"

definition broken_save :: "invoice list \<Rightarrow> invoice \<Rightarrow> bool \<times> invoice list \<times> 64 word" where
  "broken_save w i = (False, w, inv_id i)"

definition broken_remove :: "invoice list \<Rightarrow> invoice \<Rightarrow> bool \<times> invoice list" where
  "broken_remove w i = (False, w)"

definition broken_env :: "invoice list env" where
  "broken_env =
     \<lparr>sha256 = sample_sha256, json_tok_u64 = sample_tok_u64, INVOICE_MAX_LABEL_LEN = 128,
      wallet_invoice_save = broken_save, wallet_invoice_remove = broken_remove\<rparr>"

text \<open>
  Two invoices: \<open>L1\<close> at address 0 and \<open>L2\<close> at address 1, both unpaid, \<open>L2\<close> the more
  recent and so at the head of the list.
\<close>

definition invoice_L1 :: invoice where
  "invoice_L1 =
     \<lparr>inv_id = 1, state = UNPAID, label = ''L1'', msatoshi = 1000, r_r = replicate 32 1,
      rhash = 32\<rparr>"

definition invoice_L2 :: invoice where
  "invoice_L2 =
     \<lparr>inv_id = 2, state = UNPAID, label = ''L2'', msatoshi = 500, r_r = replicate 32 2,
      rhash = 64\<rparr>"

definition sample_heap :: "addr \<Rightarrow> invoice" where
  "sample_heap p = (if p = 0 then invoice_L1 else invoice_L2)"

definition sample_ld :: "invoice list lightningd" where
  "sample_ld =
     \<lparr>heap = sample_heap, brk = 2,
      invoices = \<lparr>invlist = [1, 0], invoice_waiters = []\<rparr>,
      wallet = [invoice_L1, invoice_L2], replies = [], entropy = (\<lambda>i. of_nat i)\<rparr>"

text \<open>The same daemon with the commands \<open>ws\<close> waiting.\<close>

definition sample_waiting :: "command list \<Rightarrow> invoice list lightningd" where
  "sample_waiting ws = sample_ld\<lparr>invoices := \<lparr>invlist = [1, 0], invoice_waiters = ws\<rparr>\<rparr>"

text \<open>
  Invoice \<open>L1\<close> resolved once while command 3 waited; then command 4 starts to wait for
  \<open>L2\<close>.
\<close>

definition resolved_once :: "invoice list lightningd" where
  "resolved_once = the (resolve_invoice sample_env no_reentry (sample_waiting [3]) 0)"

definition waiting_again :: "invoice list lightningd" where
  "waiting_again = json_waitinvoice 4 [''label'' \<mapsto> ''L2''] resolved_once"

text \<open>
  A daemon that has only \<open>L1\<close> in its store, with \<open>L2\<close> allocated at address 1 and not
  yet in the list; the same with the invoice at address 1 labelled \<open>L1\<close> too; and an
  empty daemon.
\<close>

definition sample_only_L1 :: "invoice list lightningd" where
  "sample_only_L1 = sample_ld\<lparr>invoices := \<lparr>invlist = [0], invoice_waiters = []\<rparr>\<rparr>"

definition sample_loading :: "invoice list lightningd" where
  "sample_loading = sample_only_L1\<lparr>heap := sample_heap(1 := invoice_L2\<lparr>label := ''L1''\<rparr>)\<rparr>"

definition sample_empty :: "invoice list lightningd" where
  "sample_empty = sample_ld\<lparr>brk := 0, invoices := invoices_init, wallet := []\<rparr>"

text \<open>Requests by label, and the sample daemon with \<open>L1\<close> paid.\<close>

definition by_label :: "string \<Rightarrow> params" where
  "by_label l = [''label'' \<mapsto> l]"

definition no_params :: params where
  "no_params = Map.empty"

definition sample_L1_paid :: "invoice list lightningd" where
  "sample_L1_paid = sample_ld\<lparr>heap := sample_heap(0 := invoice_L1\<lparr>state := PAID\<rparr>)\<rparr>"

text \<open>
  Create requests for the sample daemon. The preimage of 31 bytes 01 and one byte 02
  is new; 32 bytes 01 is the preimage of \<open>L1\<close>.
\<close>

definition request_L3 :: params where
  "request_L3 = [''amount'' \<mapsto> ''1000'', ''label'' \<mapsto> ''L3'']"

definition request_L3_r :: params where
  "request_L3_r =
     [''amount'' \<mapsto> ''1000'', ''label'' \<mapsto> ''L3'',
      ''r'' \<mapsto> ''0101010101010101010101010101010101010101010101010101010101010102'']"

definition request_same_r :: params where
  "request_same_r =
     [''amount'' \<mapsto> ''1000'', ''label'' \<mapsto> ''L3'',
      ''r'' \<mapsto> ''0101010101010101010101010101010101010101010101010101010101010101'']"

definition request_same_r_zero :: params where
  "request_same_r_zero =
     [''amount'' \<mapsto> ''0'', ''label'' \<mapsto> ''L3'',
      ''r'' \<mapsto> ''0101010101010101010101010101010101010101010101010101010101010101'']"

definition request_L1 :: params where
  "request_L1 = [''amount'' \<mapsto> ''500'', ''label'' \<mapsto> ''L1'']"

definition request_L1_zero :: params where
  "request_L1_zero = [''amount'' \<mapsto> ''0'', ''label'' \<mapsto> ''L1'']"

definition request_zero :: params where
  "request_zero = [''amount'' \<mapsto> ''0'', ''label'' \<mapsto> ''L3'']"

definition request_bad_hex :: params where
  "request_bad_hex = [''amount'' \<mapsto> ''1000'', ''label'' \<mapsto> ''L3'', ''r'' \<mapsto> ''xyz'']"

definition request_long_label :: params where
  "request_long_label = [''amount'' \<mapsto> ''1000'', ''label'' \<mapsto> replicate 129 CHR ''a'']"

definition request_no_label :: params where
  "request_no_label = [''amount'' \<mapsto> ''1000'']"

definition request_empty_label :: params where
  "request_empty_label = [''amount'' \<mapsto> ''1000'', ''label'' \<mapsto> '''']"

section \<open>Resolution: every queued waiter is told once, in order\<close>

lemma tell_all_waiters_no_reentry:
  "invoice_waiters (invoices ld) = ws \<Longrightarrow>
   tell_all_waiters no_reentry a ld =
     Some (ld\<lparr>invoices := (invoices ld)\<lparr>invoice_waiters := []\<rparr>,
              replies := replies ld @ map (\<lambda>w. (w, Success (waiter_response (heap ld a)))) ws\<rparr>)"
proof (induction ws arbitrary: ld)
  case Nil
  then show ?case
    by (subst tell_all_waiters.simps) (simp add: list_pop_def)
next
  case (Cons w ws)
  let ?ld1 = "no_reentry w (tell_waiter w (heap ld a)
                (ld\<lparr>invoices := (invoices ld)\<lparr>invoice_waiters := ws\<rparr>\<rparr>))"
  have q: "invoice_waiters (invoices ?ld1) = ws"
    by (simp add: no_reentry_def tell_waiter_def command_success_def)
  have step: "tell_all_waiters no_reentry a ld = tell_all_waiters no_reentry a ?ld1"
    using Cons.prems by (subst tell_all_waiters.simps) (simp add: list_pop_def)
  show ?case
    unfolding step Cons.IH [OF q]
    by (simp add: no_reentry_def tell_waiter_def command_success_def)
qed

lemma waiter_response_paid:
  "waiter_response (i\<lparr>state := PAID\<rparr>) = paid_projection i"
  by (simp add: waiter_response_def paid_projection_def)

text \<open>
  C1. In the daemon as the repository has it, where delivering a reply does not call
  back into the handlers, every call of \<open>resolve_invoice\<close> returns; afterwards the
  invoice is \<open>PAID\<close>, the waiter queue is empty, and the replies sent by the call are
  exactly one success per waiter that was queued before it, in the order of the queue
  (the order of registration), each carrying the label, the payment hash and the
  amount of the resolved invoice with \<open>complete\<close> true.
\<close>

theorem resolve_invoice_notifies_all:
  "\<exists>ld'. resolve_invoice e no_reentry ld a = Some ld'
     \<and> state (heap ld' a) = PAID
     \<and> invoice_waiters (invoices ld') = []
     \<and> replies ld' = replies ld @
          map (\<lambda>w. (w, Success (paid_projection (heap ld a)))) (invoice_waiters (invoices ld))"
  by (simp add: resolve_invoice_def Let_def tell_all_waiters_no_reentry [OF refl]
        waiter_response_paid split: prod.splits)

section \<open>Resolution of an invoice that is already paid\<close>

text \<open>
  C8. A call of \<open>resolve_invoice\<close> on an invoice that is already \<open>PAID\<close> (a second call)
  returns and leaves it \<open>PAID\<close>; it still empties the queue and sends every waiter
  queued at that moment the invoice's projection, so it repeats no state change but
  does have side effects: the reply log is unchanged only if nobody was waiting.
\<close>

theorem resolve_invoice_again:
  assumes "state (heap ld a) = PAID"
  shows "\<exists>ld'. resolve_invoice e no_reentry ld a = Some ld'
           \<and> state (heap ld' a) = PAID
           \<and> invoice_waiters (invoices ld') = []
           \<and> replies ld' = replies ld @
                map (\<lambda>w. (w, Success (paid_projection (heap ld a)))) (invoice_waiters (invoices ld))
           \<and> (replies ld' = replies ld) = (invoice_waiters (invoices ld) = [])"
  by (simp add: resolve_invoice_def Let_def tell_all_waiters_no_reentry [OF refl]
        waiter_response_paid split: prod.splits)

lemma resolved_once_eq:
  "resolved_once = sample_ld\<lparr>heap := sample_heap(0 := invoice_L1\<lparr>state := PAID\<rparr>),
      wallet := [invoice_L1, invoice_L2, invoice_L1\<lparr>state := PAID\<rparr>],
      replies := [(3, Success (paid_projection invoice_L1))]\<rparr>"
  by (simp add: resolved_once_def resolve_invoice_def Let_def
      tell_all_waiters_no_reentry [OF refl] sample_waiting_def sample_ld_def sample_env_def
      sample_save_def sample_heap_def invoice_L1_def waiter_response_def paid_projection_def fun_eq_iff)

theorem resolve_invoice_again_witness:
  "state (heap waiting_again 0) = PAID \<and> invoice_waiters (invoices waiting_again) = [4]
   \<and> (\<exists>ld'. resolve_invoice sample_env no_reentry waiting_again 0 = Some ld'
        \<and> state (heap ld' 0) = PAID
        \<and> invoice_waiters (invoices ld') = []
        \<and> replies ld' = [(3, Success (paid_projection invoice_L1)),
                          (4, Success (paid_projection invoice_L1))])"
proof -
  have w: "state (heap waiting_again 0) = PAID \<and> invoice_waiters (invoices waiting_again) = [4]
      \<and> replies waiting_again = [(3, Success (paid_projection invoice_L1))]
      \<and> paid_projection (heap waiting_again 0) = paid_projection invoice_L1"
    by (simp add: waiting_again_def resolved_once_eq json_waitinvoice_def json_get_params_def
        tal_strndup_def sample_ld_def sample_heap_def invoice_L1_def invoice_L2_def
        list_add_tail_def paid_projection_def)
  then have "state (heap waiting_again 0) = PAID" by simp
  from resolve_invoice_again [OF this, of sample_env] w show ?thesis
    by auto
qed

section \<open>A registration made after the queue was drained\<close>




section \<open>Creating an invoice\<close>

lemma find_inv_any:
  "(find_inv hp xs h UNPAID \<noteq> None \<or> find_inv hp xs h PAID \<noteq> None)
     = (h \<in> (\<lambda>i. rhash (hp i)) ` set xs)"
proof (induction xs)
  case Nil
  show ?case by simp
next
  case (Cons i xs)
  then show ?case by (cases "state (hp i)") auto
qed

lemma find_invoice_by_label_iff:
  "(find_invoice_by_label hp xs l \<noteq> None) = (l \<in> (\<lambda>i. label (hp i)) ` set xs)"
  by (induction xs) auto

lemma hex_decode_length: "hex_decode s n = Some bs \<Longrightarrow> length bs = n"
  by (auto simp: hex_decode_def split: option.splits if_splits)

text \<open>The handler from the hash on, check by check.\<close>

lemma json_invoice_hashed_cases:
  "json_invoice_hashed e cmd mt lt rr ld =
     (if sha256 e rr \<in> hashes_of ld then command_fail cmd (Duplicate_r_value (sha256 e rr)) ld
      else if json_tok_u64 e mt = None \<or> json_tok_u64 e mt = Some 0
      then command_fail cmd (Not_a_valid_positive_number mt) ld
      else if tal_strndup lt (length lt) \<in> labels_of ld
      then command_fail cmd (Duplicate_label (tal_strndup lt (length lt))) ld
      else if length (tal_strndup lt (length lt)) > INVOICE_MAX_LABEL_LEN e
      then command_fail cmd
             (Label_over_bytes (tal_strndup lt (length lt)) (INVOICE_MAX_LABEL_LEN e)) ld
      else
        (case wallet_invoice_save e (wallet ld)
                \<lparr>inv_id = 0, state = UNPAID, label = tal_strndup lt (length lt),
                 msatoshi = the (json_tok_u64 e mt), r_r = rr, rhash = sha256 e rr\<rparr> of
           (ok, w', id') \<Rightarrow>
             if \<not> ok then command_fail cmd Database_error_invoice (ld\<lparr>wallet := w'\<rparr>)
             else
               command_success cmd (JObject [(''rhash'', JHex (sha256 e rr))])
                 (ld\<lparr>wallet := w', brk := Suc (brk ld),
                     heap := (heap ld)(brk ld :=
                       \<lparr>inv_id = id', state = UNPAID, label = tal_strndup lt (length lt),
                        msatoshi = the (json_tok_u64 e mt), r_r = rr, rhash = sha256 e rr\<rparr>),
                     invoices := (invoices ld)\<lparr>invlist := brk ld # invlist (invoices ld)\<rparr>\<rparr>)))"
proof -
  have h: "(find_unpaid (heap ld) (invoices ld) (sha256 e rr) \<noteq> None
            \<or> find_paid (heap ld) (invoices ld) (sha256 e rr) \<noteq> None)
           = (sha256 e rr \<in> hashes_of ld)"
    unfolding find_unpaid_def find_paid_def hashes_of_def by (rule find_inv_any)
  have l: "(find_invoice_by_label (heap ld) (invlist (invoices ld)) (tal_strndup lt (length lt))
             \<noteq> None) = (tal_strndup lt (length lt) \<in> labels_of ld)"
    unfolding labels_of_def by (rule find_invoice_by_label_iff)
  show ?thesis
    unfolding json_invoice_hashed_def Let_def h l
    by (auto simp: list_add_def split: option.splits prod.splits)
qed

lemma json_invoice_present:
  assumes "ps ''amount'' = Some mt" "ps ''label'' = Some lt"
  shows "json_invoice e cmd ps ld =
     (case preimage_for ps ld of
        None \<Rightarrow> command_fail cmd (Invalid_hex_r (the (ps ''r''))) ld
      | Some rr \<Rightarrow> json_invoice_hashed e cmd mt lt rr (entropy_used ps ld))"
  using assms
  by (simp add: json_invoice_def json_get_params_def preimage_for_def entropy_used_def
      split: option.splits prod.splits)

lemma json_invoice_missing:
  assumes "ps ''amount'' = None \<or> ps ''label'' = None"
  shows "json_invoice e cmd ps ld = command_fail cmd Need_amount_and_label ld"
  using assms by (auto simp: json_invoice_def json_get_params_def)

lemma entropy_used_same [simp]:
  "heap (entropy_used ps ld) = heap ld" "invoices (entropy_used ps ld) = invoices ld"
  "brk (entropy_used ps ld) = brk ld" "wallet (entropy_used ps ld) = wallet ld"
  "replies (entropy_used ps ld) = replies ld"
  "hashes_of (entropy_used ps ld) = hashes_of ld" "labels_of (entropy_used ps ld) = labels_of ld"
  by (simp_all add: entropy_used_def hashes_of_def labels_of_def split: option.splits)

lemma json_invoice_hashed_success:
  assumes "replies (json_invoice_hashed e cmd mt lt rr ld) = replies ld @ [(cmd, Success j)]"
  shows "invlist (invoices (json_invoice_hashed e cmd mt lt rr ld)) = brk ld # invlist (invoices ld)
       \<and> r_r (heap (json_invoice_hashed e cmd mt lt rr ld) (brk ld)) = rr
       \<and> rhash (heap (json_invoice_hashed e cmd mt lt rr ld) (brk ld)) = sha256 e rr
       \<and> j = JObject [(''rhash'', JHex (sha256 e rr))]"
  using assms
  by (auto simp: json_invoice_hashed_def Let_def command_fail_def command_success_def
      list_add_def split: if_splits option.splits prod.splits)

text \<open>Evaluation of the handlers on the sample daemon.\<close>

lemma hex_bytes_01:
  "hex_bytes (concat (replicate n ''01'') @ s) = map_option ((@) (replicate n 1)) (hex_bytes s)"
  by (induction n) (simp_all add: char_to_hex_def option.map_ident split: option.splits)

lemma hex_32:
  "''0101010101010101010101010101010101010101010101010101010101010101''
     = concat (replicate 32 ''01'')"
  by (simp add: eval_nat_numeral)

lemma hex_31_02:
  "''0101010101010101010101010101010101010101010101010101010101010102''
     = concat (replicate 31 ''01'') @ ''02''"
  by (simp add: eval_nat_numeral)

lemmas sample_defs =
  sample_env_def broken_env_def sample_ld_def sample_heap_def invoice_L1_def invoice_L2_def
  sample_sha256_def sample_tok_u64_def sample_save_def sample_remove_def broken_save_def
  broken_remove_def sample_waiting_def

lemmas request_defs =
  request_L3_def request_L3_r_def request_same_r_def request_same_r_zero_def request_L1_def
  request_L1_zero_def request_zero_def request_bad_hex_def request_long_label_def
  request_no_label_def request_empty_label_def

lemmas create_defs =
  json_invoice_def json_invoice_hashed_def json_get_params_def Let_def randombytes_buf_def
  command_fail_def command_success_def list_add_def tal_strndup_def find_unpaid_def
  find_paid_def hex_decode_def char_to_hex_def upt_conv_Cons preimage_for_def hashes_of_def
  labels_of_def store_unchanged_def invalid_request_def

text \<open>
  C2. When \<open>json_invoice\<close> answers with success, the invoice it put at the head of the
  list has as payment hash the SHA-256 of its preimage, which is the hash the answer
  carries; the preimage is 32 bytes long and is what \<open>r\<close> decodes to when \<open>r\<close> was
  given, the 32 bytes drawn from the entropy source when it was not.
\<close>

theorem created_hash_commits:
  assumes "replies (json_invoice e cmd ps ld) = replies ld @ [(cmd, Success j)]"
  shows "invlist (invoices (json_invoice e cmd ps ld)) = brk ld # invlist (invoices ld)
       \<and> rhash (heap (json_invoice e cmd ps ld) (brk ld))
           = sha256 e (r_r (heap (json_invoice e cmd ps ld) (brk ld)))
       \<and> j = JObject [(''rhash'', JHex (rhash (heap (json_invoice e cmd ps ld) (brk ld))))]
       \<and> length (r_r (heap (json_invoice e cmd ps ld) (brk ld))) = 32
       \<and> (case ps ''r'' of
            Some r_tok \<Rightarrow> hex_decode r_tok 32 = Some (r_r (heap (json_invoice e cmd ps ld) (brk ld)))
          | None \<Rightarrow> r_r (heap (json_invoice e cmd ps ld) (brk ld)) = map (entropy ld) [0..<32])"
proof (cases "ps ''r''")
  case None
  let ?ld1 = "ld\<lparr>entropy := \<lambda>i. entropy ld (i + 32)\<rparr>"
  have eq: "json_invoice e cmd ps ld =
      json_invoice_hashed e cmd (the (ps ''amount'')) (the (ps ''label''))
        (map (entropy ld) [0..<32]) ?ld1"
    using assms None
    by (auto simp: json_invoice_def Let_def command_fail_def randombytes_buf_def
        split: if_splits)
  from assms have "replies (json_invoice_hashed e cmd (the (ps ''amount'')) (the (ps ''label''))
        (map (entropy ld) [0..<32]) ?ld1) = replies ?ld1 @ [(cmd, Success j)]"
    unfolding eq by simp
  from json_invoice_hashed_success [OF this] None show ?thesis
    unfolding eq by simp
next
  case (Some r_tok)
  from assms Some obtain rr where d: "hex_decode r_tok 32 = Some rr"
    by (auto simp: json_invoice_def Let_def command_fail_def split: if_splits option.splits)
  have eq: "json_invoice e cmd ps ld =
      json_invoice_hashed e cmd (the (ps ''amount'')) (the (ps ''label'')) rr ld"
    using assms Some d
    by (auto simp: json_invoice_def Let_def command_fail_def split: if_splits)
  from assms have "replies (json_invoice_hashed e cmd (the (ps ''amount'')) (the (ps ''label''))
        rr ld) = replies ld @ [(cmd, Success j)]"
    unfolding eq by simp
  from json_invoice_hashed_success [OF this] Some d hex_decode_length [OF d] show ?thesis
    unfolding eq by simp
qed

theorem created_hash_commits_witness:
  "replies (json_invoice sample_env 5 request_L3 sample_ld)
     = replies sample_ld @ [(5, Success (JObject [(''rhash'', JHex 496)]))]
   \<and> rhash (heap (json_invoice sample_env 5 request_L3 sample_ld) 2)
       = sample_sha256 (r_r (heap (json_invoice sample_env 5 request_L3 sample_ld) 2))
   \<and> r_r (heap (json_invoice sample_env 5 request_L3 sample_ld) 2) = map of_nat [0..<32]
   \<and> replies (json_invoice sample_env 5 request_L3_r sample_ld)
       = replies sample_ld @ [(5, Success (JObject [(''rhash'', JHex 33)]))]
   \<and> rhash (heap (json_invoice sample_env 5 request_L3_r sample_ld) 2)
       = sample_sha256 (r_r (heap (json_invoice sample_env 5 request_L3_r sample_ld) 2))
   \<and> length (r_r (heap (json_invoice sample_env 5 request_L3_r sample_ld) 2)) = 32"
proof -
  have g: "replies (json_invoice sample_env 5 request_L3 sample_ld)
     = replies sample_ld @ [(5, Success (JObject [(''rhash'', JHex 496)]))]"
    by (simp add: create_defs sample_defs request_defs)
  have s: "replies (json_invoice sample_env 5 request_L3_r sample_ld)
       = replies sample_ld @ [(5, Success (JObject [(''rhash'', JHex 33)]))]"
    by (simp add: create_defs sample_defs request_defs)
  have e: "sha256 sample_env = sample_sha256" "brk sample_ld = 2"
    "entropy sample_ld = of_nat" "request_L3 ''r'' = None"
    by (simp_all add: sample_env_def sample_ld_def request_L3_def fun_eq_iff)
  from created_hash_commits [OF g] created_hash_commits [OF s] g s show ?thesis
    by (simp add: e)
qed

text \<open>
  C4. A create request that passes every validation and uniqueness check hands the
  record (with \<open>id\<close> 0, not yet in the list) to the gateway, together with the wallet
  as it was before the call. The in-memory store gets the record only when the gateway
  said yes: then the record is at the head of the list. When the gateway fails, the
  answer is the persistence error and the in-memory store is as it was.
\<close>

theorem create_persists_then_inserts:
  assumes "ps ''amount'' = Some mt" and "ps ''label'' = Some lt"
    and "preimage_for ps ld = Some rr"
    and "sha256 e rr \<notin> hashes_of ld"
    and "json_tok_u64 e mt = Some m" and "m \<noteq> 0"
    and "tal_strndup lt (length lt) \<notin> labels_of ld"
    and "length (tal_strndup lt (length lt)) \<le> INVOICE_MAX_LABEL_LEN e"
    and "wallet_invoice_save e (wallet ld)
           \<lparr>inv_id = 0, state = UNPAID, label = tal_strndup lt (length lt), msatoshi = m,
            r_r = rr, rhash = sha256 e rr\<rparr> = (ok, w', id')"
  shows "wallet (json_invoice e cmd ps ld) = w' \<and>
     (if ok
      then invoices (json_invoice e cmd ps ld)
             = (invoices ld)\<lparr>invlist := brk ld # invlist (invoices ld)\<rparr>
         \<and> heap (json_invoice e cmd ps ld)
             = (heap ld)(brk ld :=
                 \<lparr>inv_id = id', state = UNPAID, label = tal_strndup lt (length lt),
                  msatoshi = m, r_r = rr, rhash = sha256 e rr\<rparr>)
         \<and> replies (json_invoice e cmd ps ld)
             = replies ld @ [(cmd, Success (JObject [(''rhash'', JHex (sha256 e rr))]))]
      else store_unchanged ld (json_invoice e cmd ps ld)
         \<and> replies (json_invoice e cmd ps ld) = replies ld @ [(cmd, Failed Database_error_invoice)]
         \<and> class_of Database_error_invoice = PersistenceError)"
  using assms
  by (simp add: json_invoice_present json_invoice_hashed_cases command_fail_def
      command_success_def store_unchanged_def)
theorem create_persists_then_inserts_witness:
  "wallet (json_invoice sample_env 5 request_L3_r sample_ld)
     = [invoice_L1, invoice_L2,
        \<lparr>inv_id = 0, state = UNPAID, label = ''L3'', msatoshi = 1000,
         r_r = replicate 31 1 @ [2], rhash = 33\<rparr>]
   \<and> invlist (invoices (json_invoice sample_env 5 request_L3_r sample_ld)) = [2, 1, 0]
   \<and> heap (json_invoice sample_env 5 request_L3_r sample_ld) 2
       = \<lparr>inv_id = 3, state = UNPAID, label = ''L3'', msatoshi = 1000,
          r_r = replicate 31 1 @ [2], rhash = 33\<rparr>
   \<and> replies (json_invoice sample_env 5 request_L3_r sample_ld)
       = [(5, Success (JObject [(''rhash'', JHex 33)]))]
   \<and> store_unchanged sample_ld (json_invoice broken_env 5 request_L3_r sample_ld)
   \<and> replies (json_invoice broken_env 5 request_L3_r sample_ld)
       = [(5, Failed Database_error_invoice)]"
proof -
  let ?rr = "replicate 31 1 @ [2] :: 8 word list"
  let ?new = "\<lparr>inv_id = 0, state = UNPAID, label = tal_strndup ''L3'' (length ''L3''),
               msatoshi = 1000, r_r = ?rr, rhash = 33\<rparr>"
  have a: "request_L3_r ''amount'' = Some ''1000''" and l: "request_L3_r ''label'' = Some ''L3''"
    by (simp_all add: request_L3_r_def)
  have p: "preimage_for request_L3_r sample_ld = Some ?rr"
    by (simp add: preimage_for_def request_L3_r_def hex_decode_def hex_31_02
        hex_bytes_01 [of 31 "''02''"] char_to_hex_def)
  have h: "sha256 sample_env ?rr = 33" "sha256 broken_env ?rr = 33"
    by (simp_all add: sample_defs sum_list_replicate)
  have f: "33 \<notin> hashes_of sample_ld" "tal_strndup ''L3'' (length ''L3'') \<notin> labels_of sample_ld"
    by (simp_all add: create_defs sample_defs)
  have t: "json_tok_u64 sample_env ''1000'' = Some 1000" "json_tok_u64 broken_env ''1000'' = Some 1000"
    "(1000 :: 64 word) \<noteq> 0"
    "length (tal_strndup ''L3'' (length ''L3'')) \<le> INVOICE_MAX_LABEL_LEN sample_env"
    "length (tal_strndup ''L3'' (length ''L3'')) \<le> INVOICE_MAX_LABEL_LEN broken_env"
    by (simp_all add: sample_defs tal_strndup_def)
  have s: "wallet_invoice_save sample_env (wallet sample_ld) ?new
             = (True, [invoice_L1, invoice_L2, ?new], 3)"
    and b: "wallet_invoice_save broken_env (wallet sample_ld) ?new
             = (False, [invoice_L1, invoice_L2], 0)"
    by (simp_all add: sample_env_def broken_env_def sample_save_def broken_save_def sample_ld_def)
  from create_persists_then_inserts [where e = sample_env and cmd = 5, OF a l p _ t(1) t(3) f(2) t(4)]
    h(1) f(1) s
  have ok: "wallet (json_invoice sample_env 5 request_L3_r sample_ld) = [invoice_L1, invoice_L2, ?new]
     \<and> invoices (json_invoice sample_env 5 request_L3_r sample_ld)
         = (invoices sample_ld)\<lparr>invlist := brk sample_ld # invlist (invoices sample_ld)\<rparr>
     \<and> heap (json_invoice sample_env 5 request_L3_r sample_ld)
         = (heap sample_ld)(brk sample_ld := ?new\<lparr>inv_id := 3\<rparr>)
     \<and> replies (json_invoice sample_env 5 request_L3_r sample_ld)
         = replies sample_ld @ [(5, Success (JObject [(''rhash'', JHex 33)]))]"
    by simp
  from create_persists_then_inserts [where e = broken_env and cmd = 5, OF a l p _ t(2) t(3) f(2) t(5)]
    h(2) f(1) b
  have ko: "store_unchanged sample_ld (json_invoice broken_env 5 request_L3_r sample_ld)
     \<and> replies (json_invoice broken_env 5 request_L3_r sample_ld)
         = replies sample_ld @ [(5, Failed Database_error_invoice)]"
    by simp
  from ok ko show ?thesis
    by (simp add: sample_ld_def tal_strndup_def)
qed
text \<open>
  C5. A create request that passes validation (a positive amount, a label within the
  limit, and an \<open>r\<close> that decodes when it is given) and whose computed payment hash is
  the hash of an invoice of the store, paid or not, or whose label is the label of an
  invoice of the store, paid or not, fails with a conflict, and store and wallet are
  as they were: the conflict names the hash when the hash collides, the label
  otherwise.
\<close>

theorem create_conflict:
  assumes "\<not> invalid_request e ps"
    and "preimage_for ps ld = Some rr" and "label_param ps = Some l"
    and "sha256 e rr \<in> hashes_of ld \<or> l \<in> labels_of ld"
  shows "replies (json_invoice e cmd ps ld) = replies ld @
           [(cmd, Failed (if sha256 e rr \<in> hashes_of ld then Duplicate_r_value (sha256 e rr)
                          else Duplicate_label l))]
       \<and> class_of (if sha256 e rr \<in> hashes_of ld then Duplicate_r_value (sha256 e rr)
                    else Duplicate_label l) = ConflictError
       \<and> store_unchanged ld (json_invoice e cmd ps ld)
       \<and> wallet (json_invoice e cmd ps ld) = wallet ld"
proof -
  from assms(1) obtain mt lt where p: "ps ''amount'' = Some mt" "ps ''label'' = Some lt"
    and v: "json_tok_u64 e mt \<noteq> None" "json_tok_u64 e mt \<noteq> Some 0"
    by (auto simp: invalid_request_def split: option.splits)
  from assms(3) p(2) have l: "l = tal_strndup lt (length lt)"
    by (simp add: label_param_def)
  from assms(2,4) v show ?thesis
    by (auto simp: json_invoice_present [OF p] json_invoice_hashed_cases command_fail_def
        store_unchanged_def l)
qed

theorem create_conflict_witness:
  "\<not> invalid_request sample_env request_same_r
   \<and> preimage_for request_same_r sample_ld = Some (replicate 32 1)
   \<and> sha256 sample_env (replicate 32 1) \<in> hashes_of sample_ld
   \<and> replies (json_invoice sample_env 5 request_same_r sample_ld)
       = [(5, Failed (Duplicate_r_value 32))]
   \<and> store_unchanged sample_ld (json_invoice sample_env 5 request_same_r sample_ld)
   \<and> \<not> invalid_request sample_env request_L1
   \<and> label_param request_L1 = Some ''L1'' \<and> ''L1'' \<in> labels_of sample_ld
   \<and> replies (json_invoice sample_env 6 request_L1 sample_ld)
       = [(6, Failed (Duplicate_label ''L1''))]
   \<and> store_unchanged sample_ld (json_invoice sample_env 6 request_L1 sample_ld)"
proof -
  have v: "\<not> invalid_request sample_env request_same_r" "\<not> invalid_request sample_env request_L1"
    by (simp_all add: invalid_request_def request_same_r_def request_L1_def sample_defs
        tal_strndup_def hex_decode_def hex_32 hex_bytes_01 [of 32 "[]", simplified])
  have p1: "preimage_for request_same_r sample_ld = Some (replicate 32 1)"
    "label_param request_same_r = Some ''L3''"
    by (simp_all add: preimage_for_def label_param_def request_same_r_def hex_decode_def hex_32
        hex_bytes_01 [of 32 "[]", simplified] tal_strndup_def)
  have h: "sha256 sample_env (replicate 32 1) \<in> hashes_of sample_ld"
    "sha256 sample_env (replicate 32 1) = 32"
    by (simp_all add: sample_defs hashes_of_def sum_list_replicate)
  have p2: "preimage_for request_L1 sample_ld = Some (map of_nat [0..<32])"
    "label_param request_L1 = Some ''L1''"
    by (simp_all add: preimage_for_def label_param_def randombytes_buf_def request_L1_def
        sample_ld_def tal_strndup_def)
  have l: "''L1'' \<in> labels_of sample_ld"
    "sha256 sample_env (map of_nat [0..<32]) \<notin> hashes_of sample_ld"
    by (simp_all add: sample_defs labels_of_def hashes_of_def upt_conv_Cons)
  have e: "replies sample_ld = []" by (simp add: sample_ld_def)
  from create_conflict [OF v(1) p1 disjI1 [OF h(1)], of 5]
    create_conflict [OF v(2) p2 disjI2 [OF l(1)], of 6] v p1 p2 h l
  show ?thesis
    unfolding e by simp
qed

text \<open>
  C10, as the code has it. A create request whose amount is missing, is no number or is
  zero, whose label is missing or longer than the limit, or whose \<open>r\<close> is given and does
  not decode to 32 bytes, is turned down, and store and wallet stay as they were. The
  answer is the failure of the first check, in the handler's order, that the request
  does not pass: amount and label present; \<open>r\<close> decodes; the hash is new; the amount
  is a positive number; the label is new; the label is within the limit. So the failure
  is a validation error unless the hash, or with a good amount the label, is in the
  store: then it is that conflict. The handler has no rule against an empty label.
\<close>

theorem create_rejects_invalid:
  assumes "invalid_request e ps"
  shows "\<exists>f. replies (json_invoice e cmd ps ld) = replies ld @ [(cmd, Failed f)]
           \<and> store_unchanged ld (json_invoice e cmd ps ld)
           \<and> wallet (json_invoice e cmd ps ld) = wallet ld
           \<and> f = (case ps ''amount'' of
                     None \<Rightarrow> Need_amount_and_label
                   | Some mt \<Rightarrow>
                       (case ps ''label'' of
                          None \<Rightarrow> Need_amount_and_label
                        | Some lt \<Rightarrow>
                            (let hashed = (\<lambda>rr.
                               if sha256 e rr \<in> hashes_of ld
                               then Duplicate_r_value (sha256 e rr)
                               else if json_tok_u64 e mt = None \<or> json_tok_u64 e mt = Some 0
                               then Not_a_valid_positive_number mt
                               else if tal_strndup lt (length lt) \<in> labels_of ld
                               then Duplicate_label (tal_strndup lt (length lt))
                               else Label_over_bytes (tal_strndup lt (length lt))
                                      (INVOICE_MAX_LABEL_LEN e))
                             in case ps ''r'' of
                                  None \<Rightarrow> hashed (map (entropy ld) [0..<32])
                                | Some r_tok \<Rightarrow>
                                    (case hex_decode r_tok 32 of
                                       None \<Rightarrow> Invalid_hex_r r_tok
                                     | Some rr \<Rightarrow> hashed rr))))
           \<and> class_of f = (case f of
                              Duplicate_r_value h \<Rightarrow> ConflictError
                            | Duplicate_label l \<Rightarrow> ConflictError
                            | _ \<Rightarrow> ValidationError)"
proof (cases "ps ''amount'' = None \<or> ps ''label'' = None")
  case True
  then show ?thesis
    by (auto simp: json_invoice_missing command_fail_def store_unchanged_def
        split: option.splits)
next
  case False
  then obtain mt lt where p: "ps ''amount'' = Some mt" "ps ''label'' = Some lt" by auto
  show ?thesis
  proof (cases "preimage_for ps ld")
    case None
    then show ?thesis
      by (auto simp: json_invoice_present [OF p] p preimage_for_def command_fail_def
          store_unchanged_def split: option.splits)
  next
    case (Some rr)
    with assms p have "json_tok_u64 e mt = None \<or> json_tok_u64 e mt = Some 0
        \<or> length (tal_strndup lt (length lt)) > INVOICE_MAX_LABEL_LEN e"
      by (auto simp: invalid_request_def preimage_for_def split: option.splits)
    with Some show ?thesis
      by (auto simp: json_invoice_present [OF p] p json_invoice_hashed_cases command_fail_def
          store_unchanged_def preimage_for_def randombytes_buf_def Let_def
          split: option.splits)
  qed
qed

theorem create_rejects_invalid_witness:
  "invalid_request sample_env request_zero
   \<and> invalid_request sample_env request_bad_hex
   \<and> invalid_request sample_env request_long_label
   \<and> invalid_request sample_env request_no_label
   \<and> invalid_request sample_env request_same_r_zero
   \<and> invalid_request sample_env request_L1_zero
   \<and> replies (json_invoice sample_env 5 request_zero sample_ld)
       = [(5, Failed (Not_a_valid_positive_number ''0''))]
   \<and> replies (json_invoice sample_env 5 request_bad_hex sample_ld)
       = [(5, Failed (Invalid_hex_r ''xyz''))]
   \<and> replies (json_invoice sample_env 5 request_long_label sample_ld)
       = [(5, Failed (Label_over_bytes (replicate 129 CHR ''a'') 128))]
   \<and> replies (json_invoice sample_env 5 request_no_label sample_ld)
       = [(5, Failed Need_amount_and_label)]
   \<and> replies (json_invoice sample_env 5 request_same_r_zero sample_ld)
       = [(5, Failed (Duplicate_r_value 32))]
   \<and> replies (json_invoice sample_env 5 request_L1_zero sample_ld)
       = [(5, Failed (Not_a_valid_positive_number ''0''))]
   \<and> store_unchanged sample_ld (json_invoice sample_env 5 request_zero sample_ld)
   \<and> store_unchanged sample_ld (json_invoice sample_env 5 request_bad_hex sample_ld)
   \<and> store_unchanged sample_ld (json_invoice sample_env 5 request_long_label sample_ld)
   \<and> store_unchanged sample_ld (json_invoice sample_env 5 request_no_label sample_ld)
   \<and> store_unchanged sample_ld (json_invoice sample_env 5 request_same_r_zero sample_ld)
   \<and> store_unchanged sample_ld (json_invoice sample_env 5 request_L1_zero sample_ld)"
proof -
  have i: "invalid_request sample_env request_zero" "invalid_request sample_env request_bad_hex"
    "invalid_request sample_env request_long_label" "invalid_request sample_env request_no_label"
    "invalid_request sample_env request_same_r_zero" "invalid_request sample_env request_L1_zero"
    by (simp_all add: invalid_request_def request_defs sample_defs hex_decode_def
        char_to_hex_def tal_strndup_def)
  have "length ''L1'' \<noteq> length (replicate 129 CHR ''a'')"
    "length ''L2'' \<noteq> length (replicate 129 CHR ''a'')"
    by simp_all
  then have n: "''L1'' \<noteq> replicate 129 CHR ''a''" "''L2'' \<noteq> replicate 129 CHR ''a''"
    by fastforce+
  have v: "replies (json_invoice sample_env 5 request_zero sample_ld)
       = [(5, Failed (Not_a_valid_positive_number ''0''))]"
    "replies (json_invoice sample_env 5 request_bad_hex sample_ld)
       = [(5, Failed (Invalid_hex_r ''xyz''))]"
    "replies (json_invoice sample_env 5 request_long_label sample_ld)
       = [(5, Failed (Label_over_bytes (replicate 129 CHR ''a'') 128))]"
    "replies (json_invoice sample_env 5 request_no_label sample_ld)
       = [(5, Failed Need_amount_and_label)]"
    "replies (json_invoice sample_env 5 request_same_r_zero sample_ld)
       = [(5, Failed (Duplicate_r_value 32))]"
    "replies (json_invoice sample_env 5 request_L1_zero sample_ld)
       = [(5, Failed (Not_a_valid_positive_number ''0''))]"
    by (simp_all add: create_defs sample_defs request_defs n)
  from create_rejects_invalid [OF i(1), of 5 sample_ld]
    create_rejects_invalid [OF i(2), of 5 sample_ld]
    create_rejects_invalid [OF i(3), of 5 sample_ld]
    create_rejects_invalid [OF i(4), of 5 sample_ld]
    create_rejects_invalid [OF i(5), of 5 sample_ld]
    create_rejects_invalid [OF i(6), of 5 sample_ld] i v
  show ?thesis
    by auto
qed

text \<open>
  C10 as the spec states it fails twice. An empty label is accepted: the invoice is
  created. And a request with amount zero and the preimage of \<open>L1\<close> is turned down with
  the conflict of the hash, which is checked before the amount, not with a validation
  error.
\<close>

theorem empty_label_accepted:
  "request_empty_label ''label'' = Some ''''
   \<and> replies (json_invoice sample_env 5 request_empty_label sample_ld)
       = [(5, Success (JObject [(''rhash'', JHex 496)]))]
   \<and> invlist (invoices (json_invoice sample_env 5 request_empty_label sample_ld)) = [2, 1, 0]
   \<and> label (heap (json_invoice sample_env 5 request_empty_label sample_ld) 2) = ''''
   \<and> invalid_request sample_env request_same_r_zero
   \<and> replies (json_invoice sample_env 5 request_same_r_zero sample_ld)
       = [(5, Failed (Duplicate_r_value 32))]
   \<and> class_of (Duplicate_r_value 32) = ConflictError"
  by (simp add: create_defs sample_defs request_defs)

section \<open>Deleting an invoice\<close>

lemma json_add_invoices_filter:
  "json_add_invoices hp xs lbl =
     map (\<lambda>i. waiter_response (hp i))
       (filter (\<lambda>i. case lbl of None \<Rightarrow> True | Some l \<Rightarrow> label (hp i) = l) xs)"
  by (induction xs) (auto simp: waiter_response_def split: option.splits)

lemma json_listinvoice_listed:
  "json_listinvoice cmd ps ld =
     ld\<lparr>replies := replies ld @
        [(cmd, Success (JArray (map (\<lambda>i. waiter_response (heap ld i))
                                  (listed_records ld (label_param ps)))))]\<rparr>"
  by (simp add: json_listinvoice_def json_get_params_def command_success_def
      json_add_invoices_filter listed_records_def label_param_def)

lemma find_invoice_by_label_Some:
  "find_invoice_by_label hp xs l = Some i \<Longrightarrow> i \<in> set xs \<and> label (hp i) = l"
  by (induction xs) (auto split: if_splits)

lemma find_invoice_by_label_None:
  "(find_invoice_by_label hp xs l = None) = (l \<notin> (\<lambda>i. label (hp i)) ` set xs)"
  by (induction xs) auto

lemma distinct_map_remove1:
  "distinct (map f xs) \<Longrightarrow> x \<in> set xs \<Longrightarrow> f x \<notin> f ` set (remove1 x xs)"
  by (induction xs) (auto simp: image_iff dest: notin_set_remove1)

text \<open>
  C6. A delete request names a label. If no invoice of the store has it, the answer is
  not found and store and wallet are as they were. Otherwise the gateway is asked
  first to remove the record with that label: if it fails, the answer is the
  persistence error and the store, the record in it, is as it was; if it succeeds, the
  record is taken off the list, the answer carries its label, payment hash and amount,
  and a list request that follows does not list it, whatever label it asks for (the
  list of the store names no invoice twice). When labels are unique, the label is
  gone from the store as well.
\<close>

theorem delete_invoice:
  assumes "ps ''label'' = Some tok" and "distinct (invlist (invoices ld))"
  shows "if tal_strndup tok (length tok) \<notin> labels_of ld
     then json_delinvoice e cmd ps ld = ld\<lparr>replies := replies ld @ [(cmd, Failed Unknown_invoice)]\<rparr>
        \<and> class_of Unknown_invoice = NotFoundError
     else (\<exists>i ok w'. i \<in> set (invlist (invoices ld))
            \<and> label (heap ld i) = tal_strndup tok (length tok)
            \<and> wallet_invoice_remove e (wallet ld) (heap ld i) = (ok, w')
            \<and> wallet (json_delinvoice e cmd ps ld) = w'
            \<and> (if ok
                then invoices (json_delinvoice e cmd ps ld)
                       = (invoices ld)\<lparr>invlist := remove1 i (invlist (invoices ld))\<rparr>
                   \<and> heap (json_delinvoice e cmd ps ld) = heap ld
                   \<and> replies (json_delinvoice e cmd ps ld) = replies ld @
                       [(cmd, Success (JObject [(''label'', JString (label (heap ld i))),
                                               (''rhash'', JHex (rhash (heap ld i))),
                                               (''msatoshi'', JU64 (msatoshi (heap ld i)))]))]
                   \<and> i \<notin> set (invlist (invoices (json_delinvoice e cmd ps ld)))
                   \<and> (\<forall>cmd2 ps2.
                         replies (json_listinvoice cmd2 ps2 (json_delinvoice e cmd ps ld))
                           = replies (json_delinvoice e cmd ps ld) @
                             [(cmd2, Success (JArray (map (\<lambda>j. waiter_response (heap ld j))
                                (listed_records (json_delinvoice e cmd ps ld) (label_param ps2)))))]
                         \<and> i \<notin> set (listed_records (json_delinvoice e cmd ps ld) (label_param ps2)))
                   \<and> (unique_labels ld
                        \<longrightarrow> tal_strndup tok (length tok) \<notin> labels_of (json_delinvoice e cmd ps ld))
                else store_unchanged ld (json_delinvoice e cmd ps ld)
                   \<and> i \<in> set (invlist (invoices (json_delinvoice e cmd ps ld)))
                   \<and> replies (json_delinvoice e cmd ps ld)
                       = replies ld @ [(cmd, Failed Database_error_delinvoice)]
                   \<and> class_of Database_error_delinvoice = PersistenceError))"
proof (cases "find_invoice_by_label (heap ld) (invlist (invoices ld)) (tal_strndup tok (length tok))")
  case None
  then have "tal_strndup tok (length tok) \<notin> labels_of ld"
    by (simp add: find_invoice_by_label_None labels_of_def)
  with None assms(1) show ?thesis
    by (simp add: json_delinvoice_def json_get_params_def command_fail_def)
next
  case (Some i)
  from find_invoice_by_label_Some [OF Some]
  have i: "i \<in> set (invlist (invoices ld))" "label (heap ld i) = tal_strndup tok (length tok)"
    by simp_all
  have "label (heap ld i) \<in> labels_of ld"
    using i(1) by (simp add: labels_of_def)
  then have present: "\<not> tal_strndup tok (length tok) \<notin> labels_of ld"
    by (simp add: i(2))
  obtain ok w' where g: "wallet_invoice_remove e (wallet ld) (heap ld i) = (ok, w')"
    by (cases "wallet_invoice_remove e (wallet ld) (heap ld i)")
  show ?thesis
  proof (cases ok)
    case False
    with Some g assms(1) i have
      "json_delinvoice e cmd ps ld
         = ld\<lparr>wallet := w', replies := replies ld @ [(cmd, Failed Database_error_delinvoice)]\<rparr>"
      by (simp add: json_delinvoice_def json_get_params_def command_fail_def)
    with False g i present show ?thesis
      by (auto simp: store_unchanged_def)
  next
    case True
    let ?ld' = "json_delinvoice e cmd ps ld"
    from True Some g assms(1) have eq: "?ld' =
        ld\<lparr>wallet := w',
           invoices := (invoices ld)\<lparr>invlist := remove1 i (invlist (invoices ld))\<rparr>,
           replies := replies ld @
             [(cmd, Success (JObject [(''label'', JString (label (heap ld i))),
                                     (''rhash'', JHex (rhash (heap ld i))),
                                     (''msatoshi'', JU64 (msatoshi (heap ld i)))]))]\<rparr>"
      by (simp add: json_delinvoice_def json_get_params_def command_success_def list_del_from_def)
    have gone: "i \<notin> set (invlist (invoices ?ld'))"
      using assms(2) by (simp add: eq)
    then have unlisted: "i \<notin> set (listed_records ?ld' l)" for l
      by (simp add: listed_records_def)
    have lab: "unique_labels ld \<longrightarrow> tal_strndup tok (length tok) \<notin> labels_of ?ld'"
      using distinct_map_remove1 [of "\<lambda>j. label (heap ld j)" "invlist (invoices ld)" i] i
      by (auto simp: unique_labels_def labels_of_def eq)
    have hp: "heap ?ld' = heap ld" by (simp add: eq)
    have "\<exists>ok w'. i \<in> set (invlist (invoices ld))
            \<and> label (heap ld i) = tal_strndup tok (length tok)
            \<and> wallet_invoice_remove e (wallet ld) (heap ld i) = (ok, w')
            \<and> wallet ?ld' = w'
            \<and> (if ok
                then invoices ?ld' = (invoices ld)\<lparr>invlist := remove1 i (invlist (invoices ld))\<rparr>
                   \<and> heap ?ld' = heap ld
                   \<and> replies ?ld' = replies ld @
                       [(cmd, Success (JObject [(''label'', JString (label (heap ld i))),
                                               (''rhash'', JHex (rhash (heap ld i))),
                                               (''msatoshi'', JU64 (msatoshi (heap ld i)))]))]
                   \<and> i \<notin> set (invlist (invoices ?ld'))
                   \<and> (\<forall>cmd2 ps2.
                         replies (json_listinvoice cmd2 ps2 ?ld')
                           = replies ?ld' @
                             [(cmd2, Success (JArray (map (\<lambda>j. waiter_response (heap ld j))
                                (listed_records ?ld' (label_param ps2)))))]
                         \<and> i \<notin> set (listed_records ?ld' (label_param ps2)))
                   \<and> (unique_labels ld \<longrightarrow> tal_strndup tok (length tok) \<notin> labels_of ?ld')
                else store_unchanged ld ?ld'
                   \<and> i \<in> set (invlist (invoices ?ld'))
                   \<and> replies ?ld' = replies ld @ [(cmd, Failed Database_error_delinvoice)]
                   \<and> class_of Database_error_delinvoice = PersistenceError)"
      apply (rule exI [of _ True], rule exI [of _ w'])
      using i g True gone unlisted lab
      by (simp add: json_listinvoice_listed hp) (simp add: eq)
    with present show ?thesis by (simp only: if_False) blast
  qed
qed
theorem delete_invoice_witness:
  "by_label ''L1'' ''label'' = Some ''L1'' \<and> by_label ''L9'' ''label'' = Some ''L9''
   \<and> distinct (invlist (invoices sample_ld))
   \<and> ''L9'' \<notin> labels_of sample_ld \<and> ''L1'' \<in> labels_of sample_ld
   \<and> json_delinvoice sample_env 5 (by_label ''L9'') sample_ld
       = sample_ld\<lparr>replies := [(5, Failed Unknown_invoice)]\<rparr>
   \<and> invlist (invoices (json_delinvoice sample_env 5 (by_label ''L1'') sample_ld)) = [1]
   \<and> wallet (json_delinvoice sample_env 5 (by_label ''L1'') sample_ld) = [invoice_L2]
   \<and> replies (json_delinvoice sample_env 5 (by_label ''L1'') sample_ld)
       = [(5, Success (JObject [(''label'', JString ''L1''), (''rhash'', JHex 32),
                               (''msatoshi'', JU64 1000)]))]
   \<and> replies (json_listinvoice 6 no_params
                 (json_delinvoice sample_env 5 (by_label ''L1'') sample_ld))
       = [(5, Success (JObject [(''label'', JString ''L1''), (''rhash'', JHex 32),
                               (''msatoshi'', JU64 1000)])),
          (6, Success (JArray [waiter_response invoice_L2]))]
   \<and> store_unchanged sample_ld (json_delinvoice broken_env 5 (by_label ''L1'') sample_ld)
   \<and> replies (json_delinvoice broken_env 5 (by_label ''L1'') sample_ld)
       = [(5, Failed Database_error_delinvoice)]"
proof -
  have a: "by_label ''L1'' ''label'' = Some ''L1''" "by_label ''L9'' ''label'' = Some ''L9''"
    by (simp_all add: by_label_def)
  have d: "distinct (invlist (invoices sample_ld))"
    by (simp add: sample_ld_def)
  have l: "tal_strndup ''L9'' (length ''L9'') \<notin> labels_of sample_ld"
    "\<not> tal_strndup ''L1'' (length ''L1'') \<notin> labels_of sample_ld"
    "''L9'' \<notin> labels_of sample_ld" "''L1'' \<in> labels_of sample_ld"
    by (simp_all add: labels_of_def tal_strndup_def sample_defs)
  from delete_invoice [where ps = "by_label ''L9''" and tok = "''L9''" and e = sample_env
      and cmd = 5, OF a(2) d] l(1)
  have absent: "json_delinvoice sample_env 5 (by_label ''L9'') sample_ld
       = sample_ld\<lparr>replies := [(5, Failed Unknown_invoice)]\<rparr>"
    by (simp add: sample_ld_def)
  have ev: "invlist (invoices (json_delinvoice sample_env 5 (by_label ''L1'') sample_ld)) = [1]"
    "wallet (json_delinvoice sample_env 5 (by_label ''L1'') sample_ld) = [invoice_L2]"
    "replies (json_delinvoice sample_env 5 (by_label ''L1'') sample_ld)
       = [(5, Success (JObject [(''label'', JString ''L1''), (''rhash'', JHex 32),
                               (''msatoshi'', JU64 1000)]))]"
    "replies (json_listinvoice 6 no_params
                 (json_delinvoice sample_env 5 (by_label ''L1'') sample_ld))
       = [(5, Success (JObject [(''label'', JString ''L1''), (''rhash'', JHex 32),
                               (''msatoshi'', JU64 1000)])),
          (6, Success (JArray [waiter_response invoice_L2]))]"
    "store_unchanged sample_ld (json_delinvoice broken_env 5 (by_label ''L1'') sample_ld)"
    "replies (json_delinvoice broken_env 5 (by_label ''L1'') sample_ld)
       = [(5, Failed Database_error_delinvoice)]"
    by (simp_all add: json_delinvoice_def json_listinvoice_def json_get_params_def Let_def
        by_label_def no_params_def tal_strndup_def command_success_def command_fail_def
        list_del_from_def store_unchanged_def waiter_response_def sample_defs)
  from delete_invoice [where ps = "by_label ''L1''" and tok = "''L1''" and e = sample_env
      and cmd = 5, OF a(1) d]
    delete_invoice [where ps = "by_label ''L1''" and tok = "''L1''" and e = broken_env
      and cmd = 5, OF a(1) d]
    a d l absent ev
  show ?thesis by simp
qed

section \<open>Waiting for any invoice\<close>

lemma advance_to_paid_find:
  "advance_to_paid hp xs = find (\<lambda>i. state (hp i) = PAID) xs"
proof (induction xs)
  case Nil
  show ?case by simp
next
  case (Cons i xs)
  then show ?case by (cases "state (hp i)") simp_all
qed

lemma list_from_label:
  "find_invoice_by_label hp xs l = Some i \<Longrightarrow>
   list_from xs i = dropWhile (\<lambda>j. label (hp j) \<noteq> l) xs"
proof (induction xs)
  case Nil
  then show ?case by simp
next
  case (Cons a xs)
  show ?case
  proof (cases "label (hp a) = l")
    case True
    with Cons.prems show ?thesis by (simp add: list_from_def)
  next
    case False
    with Cons.prems have f: "find_invoice_by_label hp xs l = Some i" by simp
    from find_invoice_by_label_Some [OF f] False have "a \<noteq> i" by auto
    with False Cons.IH [OF f] show ?thesis by (simp add: list_from_def)
  qed
qed

lemma find_paid_response:
  "find (\<lambda>i. state (hp i) = PAID) xs = Some i \<Longrightarrow> waiter_response (hp i) = paid_projection (hp i)"
  by (auto simp: find_Some_iff waiter_response_def paid_projection_def)

text \<open>
  C9, as the code has it. A wait-any request whose label is the label of no invoice of
  the store fails: the answer is label not found, and nobody is registered. Any other
  wait-any request, with no label or with the label of an invoice, does not fail: it
  is answered at once with the projection of the first paid invoice of its traversal,
  or, when the traversal has no paid invoice, the command is added at the tail of the
  queue and nothing is answered.
\<close>

theorem waitanyinvoice_outcome:
  "if (case label_param ps of None \<Rightarrow> False | Some l \<Rightarrow> l \<notin> labels_of ld)
   then json_waitanyinvoice cmd ps ld = ld\<lparr>replies := replies ld @ [(cmd, Failed Label_not_found)]\<rparr>
      \<and> class_of Label_not_found = NotFoundError
   else (case find (\<lambda>i. state (heap ld i) = PAID) (traversal ld (label_param ps)) of
           Some i \<Rightarrow>
             json_waitanyinvoice cmd ps ld
               = ld\<lparr>replies := replies ld @ [(cmd, Success (paid_projection (heap ld i)))]\<rparr>
         | None \<Rightarrow>
             json_waitanyinvoice cmd ps ld
               = ld\<lparr>invoices := (invoices ld)
                    \<lparr>invoice_waiters := invoice_waiters (invoices ld) @ [cmd]\<rparr>\<rparr>)"
proof (cases "ps ''label''")
  case None
  then show ?thesis
    by (auto simp: json_waitanyinvoice_def json_get_params_def label_param_def traversal_def
        advance_to_paid_find tell_waiter_def command_success_def list_add_tail_def
        find_paid_response split: option.splits)
next
  case (Some tok)
  let ?l = "tal_strndup tok (length tok)"
  show ?thesis
  proof (cases "find_invoice_by_label (heap ld) (invlist (invoices ld)) ?l")
    case None
    then have "?l \<notin> labels_of ld"
      by (simp add: find_invoice_by_label_None labels_of_def)
    with None Some show ?thesis
      by (simp add: json_waitanyinvoice_def json_get_params_def label_param_def command_fail_def)
  next
    case found: (Some i)
    from find_invoice_by_label_Some [OF found]
    have m: "i \<in> set (invlist (invoices ld))" and q: "label (heap ld i) = ?l"
      by simp_all
    from m have "label (heap ld i) \<in> labels_of ld"
      unfolding labels_of_def by (rule imageI)
    then have "?l \<in> labels_of ld" by (simp add: q)
    with found Some list_from_label [OF found] show ?thesis
      by (auto simp: json_waitanyinvoice_def json_get_params_def label_param_def traversal_def
          advance_to_paid_find tell_waiter_def command_success_def list_add_tail_def
          find_paid_response split: option.splits)
  qed
qed

theorem waitanyinvoice_outcome_witness:
  "json_waitanyinvoice 5 no_params sample_ld = sample_waiting [5]
   \<and> json_waitanyinvoice 5 (by_label ''L2'') sample_L1_paid
       = sample_L1_paid\<lparr>replies := [(5, Success (paid_projection invoice_L1))]\<rparr>
   \<and> json_waitanyinvoice 5 (by_label ''L1'') sample_ld = sample_waiting [5]
   \<and> json_waitanyinvoice 5 (by_label ''L9'') sample_ld
       = sample_ld\<lparr>replies := [(5, Failed Label_not_found)]\<rparr>"
proof -
  have e: "label_param no_params = None" "label_param (by_label ''L1'') = Some ''L1''"
    "label_param (by_label ''L2'') = Some ''L2''" "label_param (by_label ''L9'') = Some ''L9''"
    by (simp_all add: label_param_def no_params_def by_label_def tal_strndup_def)
  from waitanyinvoice_outcome [where ps = no_params and ld = sample_ld and cmd = 5]
    waitanyinvoice_outcome [where ps = "by_label ''L2''" and ld = sample_L1_paid and cmd = 5]
    waitanyinvoice_outcome [where ps = "by_label ''L1''" and ld = sample_ld and cmd = 5]
    waitanyinvoice_outcome [where ps = "by_label ''L9''" and ld = sample_ld and cmd = 5]
  show ?thesis
    by (simp add: e labels_of_def traversal_def sample_defs sample_L1_paid_def
        paid_projection_def)
qed

text \<open>
  C9 as the spec states it fails: no invoice is labelled \<open>L9\<close>, and the wait-any request
  that names \<open>L9\<close> is answered with an error; the command is not registered.
\<close>

theorem waitanyinvoice_unknown_label_fails:
  "''L9'' \<notin> labels_of sample_ld
   \<and> replies (json_waitanyinvoice 5 (by_label ''L9'') sample_ld) = [(5, Failed Label_not_found)]
   \<and> invoice_waiters (invoices (json_waitanyinvoice 5 (by_label ''L9'') sample_ld)) = []"
  by (simp add: json_waitanyinvoice_def json_get_params_def by_label_def tal_strndup_def
      command_fail_def labels_of_def sample_defs)

section \<open>The invariants of the store\<close>

lemma store_ok_same:
  assumes "invlist (invoices ld') = invlist (invoices ld)" and "brk ld' = brk ld"
    and "\<And>i. label (heap ld' i) = label (heap ld i)"
    and "\<And>i. rhash (heap ld' i) = rhash (heap ld i)"
    and "\<And>i. r_r (heap ld' i) = r_r (heap ld i)"
  shows "store_ok e ld' = store_ok e ld"
  using assms
  by (simp add: store_ok_def unique_hashes_def unique_labels_def hashes_commit_def allocated_def)

lemma store_ok_command_fail [simp]: "store_ok e (command_fail cmd f ld) = store_ok e ld"
  by (rule store_ok_same) (simp_all add: command_fail_def)

lemma store_ok_command_success [simp]: "store_ok e (command_success cmd j ld) = store_ok e ld"
  by (rule store_ok_same) (simp_all add: command_success_def)

lemma store_ok_entropy_used [simp]: "store_ok e (entropy_used ps ld) = store_ok e ld"
  by (rule store_ok_same) simp_all

lemma store_ok_wallet [simp]: "store_ok e (ld\<lparr>wallet := w\<rparr>) = store_ok e ld"
  by (rule store_ok_same) simp_all

lemma store_ok_waiters [simp]:
  "store_ok e (ld\<lparr>invoices := (invoices ld)\<lparr>invoice_waiters := ws\<rparr>\<rparr>) = store_ok e ld"
  by (rule store_ok_same) simp_all

lemma map_heap_upd:
  "\<forall>i \<in> set xs. i \<noteq> p \<Longrightarrow> map (\<lambda>i. f ((hp(p := v)) i)) xs = map (\<lambda>i. f (hp i)) xs"
  by (intro map_cong) auto

lemma list_all_heap_upd:
  "\<forall>i \<in> set xs. i \<noteq> p \<Longrightarrow> list_all (\<lambda>i. P ((hp(p := v)) i)) xs = list_all (\<lambda>i. P (hp i)) xs"
  by (auto simp: list_all_iff)

lemma store_ok_insert:
  assumes ok: "store_ok e ld"
    and h: "h \<notin> hashes_of ld" and l: "l \<notin> labels_of ld" and c: "h = sha256 e rr"
  shows "store_ok e
     (ld\<lparr>wallet := w, brk := Suc (brk ld),
         heap := (heap ld)(brk ld :=
           \<lparr>inv_id = n, state = s, label = l, msatoshi = m, r_r = rr, rhash = h\<rparr>),
         invoices := (invoices ld)\<lparr>invlist := brk ld # invlist (invoices ld)\<rparr>\<rparr>)"
proof -
  from ok have a: "\<forall>i \<in> set (invlist (invoices ld)). i < brk ld"
    by (simp add: store_ok_def allocated_def list_all_iff)
  then have ne: "\<forall>i \<in> set (invlist (invoices ld)). i \<noteq> brk ld"
    by auto
  from a have less: "list_all (\<lambda>i. i < Suc (brk ld)) (invlist (invoices ld))"
    by (auto simp: list_all_iff)
  from ok h l c ne less show ?thesis
    by (simp add: store_ok_def unique_hashes_def unique_labels_def hashes_commit_def
        allocated_def hashes_of_def labels_of_def map_heap_upd
        list_all_heap_upd [where P = "\<lambda>v. rhash v = sha256 e (r_r v)"] fun_upd_same
        del: fun_upd_apply)
qed

lemma store_ok_json_invoice:
  assumes "store_ok e ld"
  shows "store_ok e (json_invoice e cmd ps ld)"
proof (cases "ps ''amount'' = None \<or> ps ''label'' = None")
  case True
  with assms show ?thesis by (simp add: json_invoice_missing)
next
  case False
  then obtain mt lt where p: "ps ''amount'' = Some mt" "ps ''label'' = Some lt" by auto
  show ?thesis
  proof (cases "preimage_for ps ld")
    case None
    with assms show ?thesis by (simp add: json_invoice_present [OF p])
  next
    case (Some rr)
    from assms have ok: "store_ok e (entropy_used ps ld)" by simp
    have "store_ok e (json_invoice_hashed e cmd mt lt rr (entropy_used ps ld))"
      unfolding json_invoice_hashed_cases
      using ok store_ok_insert [OF ok, where rr = rr]
      by (auto split: prod.splits)
    with Some show ?thesis by (simp add: json_invoice_present [OF p])
  qed
qed

lemma distinct_map_remove1_keep: "distinct (map f xs) \<Longrightarrow> distinct (map f (remove1 x xs))"
proof (induction xs)
  case Nil
  then show ?case by simp
next
  case (Cons a xs)
  then show ?case
    by (auto simp: image_iff dest: notin_set_remove1)
qed

lemma store_ok_json_delinvoice:
  assumes "store_ok e ld"
  shows "store_ok e (json_delinvoice e cmd ps ld)"
proof -
  have rm: "store_ok e (ld\<lparr>wallet := w,
       invoices := (invoices ld)\<lparr>invlist := remove1 i (invlist (invoices ld))\<rparr>\<rparr>)" for w i
    using assms
    by (auto simp: store_ok_def unique_hashes_def unique_labels_def hashes_commit_def
        allocated_def list_all_iff distinct_map_remove1_keep dest: notin_set_remove1)
  show ?thesis
    using assms rm
    by (auto simp: json_delinvoice_def Let_def list_del_from_def
        split: option.splits prod.splits)
qed

lemma store_ok_json_listinvoice:
  "store_ok e ld \<Longrightarrow> store_ok e (json_listinvoice cmd ps ld)"
  by (simp add: json_listinvoice_def)

lemma store_ok_json_waitanyinvoice:
  "store_ok e ld \<Longrightarrow> store_ok e (json_waitanyinvoice cmd ps ld)"
  by (auto simp: json_waitanyinvoice_def tell_waiter_def split: option.splits sum.splits)

lemma store_ok_json_waitinvoice:
  "store_ok e ld \<Longrightarrow> store_ok e (json_waitinvoice cmd ps ld)"
  by (auto simp: json_waitinvoice_def Let_def tell_waiter_def split: option.splits)

lemma store_ok_resolve_invoice:
  assumes "store_ok e ld" and "resolve_invoice e no_reentry ld a = Some ld'"
  shows "store_ok e ld'"
proof -
  have "store_ok e ld' = store_ok e ld"
    using assms(2)
    by (intro store_ok_same)
      (auto simp: resolve_invoice_def Let_def tell_all_waiters_no_reentry [OF refl]
        split: prod.splits)
  with assms(1) show ?thesis by simp
qed

lemma reachable_store_ok: "reachable e ld \<Longrightarrow> store_ok e ld"
proof (induction rule: reachable.induct)
  case (start ld)
  then show ?case
    by (simp add: store_ok_def unique_hashes_def unique_labels_def hashes_commit_def
        allocated_def invoices_init_def)
next
  case (create ld cmd ps)
  then show ?case by (simp add: store_ok_json_invoice)
next
  case (listing ld cmd ps)
  then show ?case by (simp add: store_ok_json_listinvoice)
next
  case (delete ld cmd ps)
  then show ?case by (simp add: store_ok_json_delinvoice)
next
  case (wait_any ld cmd ps)
  then show ?case by (simp add: store_ok_json_waitanyinvoice)
next
  case (wait_one ld cmd ps)
  then show ?case by (simp add: store_ok_json_waitinvoice)
next
  case (resolve ld a ld')
  then show ?case by (simp add: store_ok_resolve_invoice)
qed

text \<open>\<open>invoice_add\<close> leaves the invoice it lists as it came, its hash too.\<close>

lemma invoice_add_listed:
  assumes "invp < brk ld"
  shows "heap (invoice_add e ld invp) invp = heap ld invp"
    and "invlist (invoices (invoice_add e ld invp)) = invp # invlist (invoices ld)"
  using assms by (simp_all add: invoice_add_def Let_def list_add_def)

lemma invoice_add_unique:
  assumes u: "unique_hashes ld" "unique_labels ld" and al: "allocated ld" and p: "invp < brk ld"
    and h: "rhash (heap ld invp) \<notin> hashes_of ld" and l: "label (heap ld invp) \<notin> labels_of ld"
  shows "unique_hashes (invoice_add e ld invp) \<and> unique_labels (invoice_add e ld invp)
         \<and> allocated (invoice_add e ld invp)"
proof -
  from al have a: "\<forall>i \<in> set (invlist (invoices ld)). i < brk ld"
    by (simp add: allocated_def list_all_iff)
  then have ne: "\<forall>i \<in> set (invlist (invoices ld)). i \<noteq> brk ld"
    by auto
  from a have less: "list_all (\<lambda>i. i < Suc (brk ld)) (invlist (invoices ld))"
    by (auto simp: list_all_iff)
  from p have same: "\<And>v. ((heap ld)(brk ld := v)) invp = heap ld invp"
    by simp
  from u p h l ne less show ?thesis
    by (simp add: invoice_add_def Let_def list_add_def unique_hashes_def unique_labels_def
        allocated_def hashes_of_def labels_of_def map_heap_upd same fun_upd_same
        del: fun_upd_apply)
qed

text \<open>
  C3, as the code has it. In every state the daemon reaches from an empty store through
  the handlers and \<open>resolve_invoice\<close>, no two invoices of the store share a payment
  hash, no two share a label, and the payment hash of each is the SHA-256 of its
  preimage; the create handler keeps the three. \<open>invoice_add\<close> checks nothing: it keeps
  hashes and labels unique when the invoice it is given, allocated and not yet listed,
  has a payment hash and a label that no invoice of the store has.
\<close>

theorem store_invariants:
  "(reachable e ld \<longrightarrow> unique_hashes ld \<and> unique_labels ld \<and> hashes_commit e ld)
   \<and> (store_ok e ld \<longrightarrow> store_ok e (json_invoice e cmd ps ld))
   \<and> (unique_hashes ld \<and> unique_labels ld \<and> allocated ld \<and> invp < brk ld
        \<and> rhash (heap ld invp) \<notin> hashes_of ld \<and> label (heap ld invp) \<notin> labels_of ld
      \<longrightarrow> unique_hashes (invoice_add e ld invp) \<and> unique_labels (invoice_add e ld invp)
          \<and> allocated (invoice_add e ld invp))"
  using reachable_store_ok [of e ld] store_ok_json_invoice [of e ld cmd ps]
    invoice_add_unique [of ld invp e]
  by (simp add: store_ok_def)
theorem store_invariants_witness:
  "reachable sample_env (json_invoice sample_env 5 request_L3 sample_empty)
   \<and> invlist (invoices (json_invoice sample_env 5 request_L3 sample_empty)) = [0]
   \<and> unique_hashes (json_invoice sample_env 5 request_L3 sample_empty)
   \<and> unique_labels (json_invoice sample_env 5 request_L3 sample_empty)
   \<and> hashes_commit sample_env (json_invoice sample_env 5 request_L3 sample_empty)
   \<and> store_ok sample_env sample_ld
   \<and> invlist (invoices (json_invoice sample_env 5 request_L3 sample_ld)) = [2, 1, 0]
   \<and> store_ok sample_env (json_invoice sample_env 5 request_L3 sample_ld)
   \<and> unique_hashes sample_only_L1 \<and> unique_labels sample_only_L1 \<and> allocated sample_only_L1
   \<and> 1 < brk sample_only_L1
   \<and> rhash (heap sample_only_L1 1) \<notin> hashes_of sample_only_L1
   \<and> label (heap sample_only_L1 1) \<notin> labels_of sample_only_L1
   \<and> invlist (invoices (invoice_add sample_env sample_only_L1 1)) = [1, 0]
   \<and> unique_hashes (invoice_add sample_env sample_only_L1 1)
   \<and> unique_labels (invoice_add sample_env sample_only_L1 1)"
proof -
  have "invoices sample_empty = invoices_init"
    by (simp add: sample_empty_def sample_ld_def)
  then have r: "reachable sample_env (json_invoice sample_env 5 request_L3 sample_empty)"
    by (intro reachable.create reachable.start)
  have l: "invlist (invoices (json_invoice sample_env 5 request_L3 sample_empty)) = [0]"
    "invlist (invoices (json_invoice sample_env 5 request_L3 sample_ld)) = [2, 1, 0]"
    "invlist (invoices (invoice_add sample_env sample_only_L1 1)) = [1, 0]"
    by (simp_all add: create_defs sample_defs request_defs sample_empty_def invoices_init_def
        invoice_add_def sample_only_L1_def)
  have s: "store_ok sample_env sample_ld"
    by (simp add: store_ok_def unique_hashes_def unique_labels_def hashes_commit_def
        allocated_def sample_defs sum_list_replicate)
  have f: "unique_hashes sample_only_L1" "unique_labels sample_only_L1"
    "allocated sample_only_L1" "1 < brk sample_only_L1"
    "rhash (heap sample_only_L1 1) \<notin> hashes_of sample_only_L1"
    "label (heap sample_only_L1 1) \<notin> labels_of sample_only_L1"
    by (simp_all add: unique_hashes_def unique_labels_def allocated_def hashes_of_def
        labels_of_def sample_only_L1_def sample_defs)
  from store_invariants [of sample_env "json_invoice sample_env 5 request_L3 sample_empty"]
    store_invariants [of sample_env sample_ld 5 request_L3]
    store_invariants [of sample_env sample_only_L1 _ _ 1] r l s f
  show ?thesis by simp
qed

text \<open>
  C3 as the spec states it fails: the store holds \<open>L1\<close> and the three invariants hold;
  \<open>invoice_add\<close> is given another invoice labelled \<open>L1\<close>, lists it, and two invoices of
  the store share a label.
\<close>

theorem invoice_add_duplicates_label:
  "unique_hashes sample_loading \<and> unique_labels sample_loading
   \<and> hashes_commit sample_env sample_loading
   \<and> label (heap sample_loading 1) = ''L1''
   \<and> invlist (invoices (invoice_add sample_env sample_loading 1)) = [1, 0]
   \<and> label (heap (invoice_add sample_env sample_loading 1) 0) = ''L1''
   \<and> label (heap (invoice_add sample_env sample_loading 1) 1) = ''L1''
   \<and> \<not> unique_labels (invoice_add sample_env sample_loading 1)"
  by (simp add: unique_hashes_def unique_labels_def hashes_commit_def invoice_add_def
      list_add_def sample_loading_def sample_only_L1_def sample_defs sum_list_replicate)

end
